theory Spec2Isabelle
  imports Complex_Main
begin

section \<open>JavaScript values\<close>

text \<open>
  The three exercises receive plain data: object literals whose fields hold numbers,
  strings, booleans, arrays and \<open>Date\<close> objects, and possibly \<open>null\<close> or
  \<open>undefined\<close> in place of a record. A number is a binary64 value: a finite number,
  \<open>NaN\<close> or one of the two infinities. A finite number is kept as the real number it
  denotes. The operators \<open>+\<close> and \<open>*\<close> are correctly rounded: on two finite numbers
  they give the binary64 value of the exact sum or product, which is that result when
  it is representable (as on integers of magnitude up to \<open>2^53\<close>), its nearest
  neighbour otherwise, an infinity on overflow and zero on underflow. The rounding is
  the engine's, \<open>round64\<close> below. The sign of zero is not kept: none of the functions
  below can observe it (\<open>-0 < 0\<close> is false, \<open>-0 === 0\<close> is true and \<open>String(-0)\<close> is
  \<open>"0"\<close>).

  A string is a list of code units below 256 (the Latin-1 range), which holds every
  literal of the source: the accented letters of the messages are single code units,
  written \<open>CHR 0xF3\<close> and the like.
\<close>

datatype jsnum = Fin real | NaN | PInf | NInf

datatype jsval =
    JUndefined
  | JNull
  | JBool bool
  | JNum jsnum
  | JStr string
  | JArr "jsval list"
  | JObj "(string \<times> jsval) list"
  | JDate int

text \<open>
  What the engine decides and the source does not: the text of a number that is not a
  safe integer, the text of a \<open>Date\<close>, the message of the \<open>TypeError\<close> raised when
  a member cannot be read or called on a value, the number a string converts to, the
  binary64 value of an exact real result, and the milliseconds a timer set for a given
  delay takes to fire.
\<close>

record engine =
  num_str :: "real \<Rightarrow> string"
  date_str :: "int \<Rightarrow> string"
  type_error_msg :: "jsval \<Rightarrow> string \<Rightarrow> string"
  parse_num :: "string \<Rightarrow> jsnum"
  round64 :: "real \<Rightarrow> jsnum"
  timer_ms :: "jsnum \<Rightarrow> int"

subsection \<open>Numbers\<close>

fun num_add :: "engine \<Rightarrow> jsnum \<Rightarrow> jsnum \<Rightarrow> jsnum" where
  "num_add E NaN _ = NaN"
| "num_add E _ NaN = NaN"
| "num_add E PInf NInf = NaN"
| "num_add E NInf PInf = NaN"
| "num_add E PInf _ = PInf"
| "num_add E _ PInf = PInf"
| "num_add E NInf _ = NInf"
| "num_add E _ NInf = NInf"
| "num_add E (Fin a) (Fin b) = round64 E (a + b)"

definition inf_of_sign :: "bool \<Rightarrow> jsnum" where
  "inf_of_sign neg = (if neg then NInf else PInf)"

fun num_mul :: "engine \<Rightarrow> jsnum \<Rightarrow> jsnum \<Rightarrow> jsnum" where
  "num_mul E NaN _ = NaN"
| "num_mul E _ NaN = NaN"
| "num_mul E (Fin a) (Fin b) = round64 E (a * b)"
| "num_mul E (Fin a) PInf = (if a = 0 then NaN else inf_of_sign (a < 0))"
| "num_mul E (Fin a) NInf = (if a = 0 then NaN else inf_of_sign (0 < a))"
| "num_mul E PInf (Fin b) = (if b = 0 then NaN else inf_of_sign (b < 0))"
| "num_mul E NInf (Fin b) = (if b = 0 then NaN else inf_of_sign (0 < b))"
| "num_mul E PInf PInf = PInf"
| "num_mul E NInf NInf = PInf"
| "num_mul E PInf NInf = NInf"
| "num_mul E NInf PInf = NInf"

text \<open>\<open>Math.floor\<close>: the integer below a finite number, which binary64 holds exactly.\<close>

fun math_floor :: "jsnum \<Rightarrow> jsnum" where
  "math_floor (Fin a) = Fin (of_int \<lfloor>a\<rfloor>)"
| "math_floor n = n"

text \<open>The relational operators on two numbers; every comparison with \<open>NaN\<close> is false.\<close>

fun num_lt :: "jsnum \<Rightarrow> jsnum \<Rightarrow> bool" where
  "num_lt NaN _ = False"
| "num_lt _ NaN = False"
| "num_lt (Fin a) (Fin b) = (a < b)"
| "num_lt NInf NInf = False"
| "num_lt NInf _ = True"
| "num_lt _ NInf = False"
| "num_lt PInf _ = False"
| "num_lt _ PInf = True"

fun num_le :: "jsnum \<Rightarrow> jsnum \<Rightarrow> bool" where
  "num_le NaN _ = False"
| "num_le _ NaN = False"
| "num_le a b = (a = b \<or> num_lt a b)"

definition num_gt :: "jsnum \<Rightarrow> jsnum \<Rightarrow> bool" where
  "num_gt a b = num_lt b a"

fun isFinite :: "jsnum \<Rightarrow> bool" where
  "isFinite (Fin _) = True"
| "isFinite _ = False"

fun isInteger :: "jsnum \<Rightarrow> bool" where
  "isInteger (Fin r) = (r = of_int \<lfloor>r\<rfloor>)"
| "isInteger _ = False"

subsection \<open>Strings\<close>

definition digit_char :: "nat \<Rightarrow> char" where
  "digit_char d = ''0123456789'' ! (d mod 10)"

fun digits :: "nat \<Rightarrow> string" where
  "digits n = (if n < 10 then [digit_char n] else digits (n div 10) @ [digit_char n])"

definition int_str :: "int \<Rightarrow> string" where
  "int_str i = (if i < 0 then ''-'' @ digits (nat (- i)) else digits (nat i))"

text \<open>\<open>String(n)\<close> for a number: the decimal digits for a safe integer, fixed words for
  the three special values, the engine's text otherwise.\<close>

definition num_to_string :: "engine \<Rightarrow> jsnum \<Rightarrow> string" where
  "num_to_string E n =
     (case n of
        NaN \<Rightarrow> ''NaN''
      | PInf \<Rightarrow> ''Infinity''
      | NInf \<Rightarrow> ''-Infinity''
      | Fin r \<Rightarrow>
          (if r = of_int \<lfloor>r\<rfloor> \<and> \<bar>r\<bar> \<le> 9007199254740992 then int_str \<lfloor>r\<rfloor>
           else num_str E r))"

fun join :: "string \<Rightarrow> string list \<Rightarrow> string" where
  "join sep [] = []"
| "join sep [x] = x"
| "join sep (x # y # ys) = x @ sep @ join sep (y # ys)"

text \<open>\<open>String(v)\<close> and the conversion of \<open>${v}\<close> in a template literal. An array
  joins its elements with commas, \<open>null\<close> and \<open>undefined\<close> elements giving the empty
  text; a plain object gives \<open>[object Object]\<close>.\<close>

fun js_to_string :: "engine \<Rightarrow> jsval \<Rightarrow> string" where
  "js_to_string E JUndefined = ''undefined''"
| "js_to_string E JNull = ''null''"
| "js_to_string E (JBool b) = (if b then ''true'' else ''false'')"
| "js_to_string E (JNum n) = num_to_string E n"
| "js_to_string E (JStr s) = s"
| "js_to_string E (JArr vs) =
     join '','' (map (\<lambda>v. if v = JUndefined \<or> v = JNull then [] else js_to_string E v) vs)"
| "js_to_string E (JObj fs) = ''[object Object]''"
| "js_to_string E (JDate t) = date_str E t"

definition lower_char :: "char \<Rightarrow> char" where
  "lower_char c =
     (let n = (of_char c :: nat)
      in if (65 \<le> n \<and> n \<le> 90) \<or> (192 \<le> n \<and> n \<le> 222 \<and> n \<noteq> 215)
         then char_of (n + 32) else c)"

definition toLowerCase :: "string \<Rightarrow> string" where
  "toLowerCase s = map lower_char s"

definition is_space :: "char \<Rightarrow> bool" where
  "is_space c = ((of_char c :: nat) \<in> {9, 10, 11, 12, 13, 32, 160})"

definition trim :: "string \<Rightarrow> string" where
  "trim s = rev (dropWhile is_space (rev (dropWhile is_space s)))"

subsection \<open>Operators on values\<close>

fun typeof :: "jsval \<Rightarrow> string" where
  "typeof JUndefined = ''undefined''"
| "typeof JNull = ''object''"
| "typeof (JBool _) = ''boolean''"
| "typeof (JNum _) = ''number''"
| "typeof (JStr _) = ''string''"
| "typeof (JArr _) = ''object''"
| "typeof (JObj _) = ''object''"
| "typeof (JDate _) = ''object''"

text \<open>\<open>!v\<close> is true exactly on the falsy values.\<close>

fun falsy :: "jsval \<Rightarrow> bool" where
  "falsy JUndefined = True"
| "falsy JNull = True"
| "falsy (JBool b) = (\<not> b)"
| "falsy (JNum n) = (n = NaN \<or> n = Fin 0)"
| "falsy (JStr s) = (s = [])"
| "falsy _ = False"

text \<open>\<open>v.name\<close> on a value that is neither \<open>null\<close> nor \<open>undefined\<close>: the field of an
  object, \<open>undefined\<close> when the object has no such field or the value is not a plain
  object (none of the field names the source reads exists on a primitive, an array or
  a \<open>Date\<close>).\<close>

fun get_prop :: "jsval \<Rightarrow> string \<Rightarrow> jsval" where
  "get_prop (JObj fs) name = (case map_of fs name of Some v \<Rightarrow> v | None \<Rightarrow> JUndefined)"
| "get_prop _ name = JUndefined"

text \<open>\<open>v?.id ?? "desconocido"\<close>.\<close>

definition id_o_desconocido :: "jsval \<Rightarrow> jsval" where
  "id_o_desconocido v =
     (let i = (if v = JUndefined \<or> v = JNull then JUndefined else get_prop v ''id'')
      in if i = JUndefined \<or> i = JNull then JStr ''desconocido'' else i)"

fun isArray :: "jsval \<Rightarrow> bool" where
  "isArray (JArr _) = True"
| "isArray _ = False"

fun instanceofDate :: "jsval \<Rightarrow> bool" where
  "instanceofDate (JDate _) = True"
| "instanceofDate _ = False"


abbreviation a_ac :: char where "a_ac \<equiv> CHR 0xE1"
abbreviation e_ac :: char where "e_ac \<equiv> CHR 0xE9"
abbreviation i_ac :: char where "i_ac \<equiv> CHR 0xED"
abbreviation o_ac :: char where "o_ac \<equiv> CHR 0xF3"
abbreviation u_ac :: char where "u_ac \<equiv> CHR 0xFA"
abbreviation dq :: char where "dq \<equiv> CHR 0x22"
abbreviation sq :: char where "sq \<equiv> CHR 0x27"

subsection \<open>Exceptions, latency and the clock\<close>

text \<open>A \<open>throw\<close> is the left injection of a sum; \<open>err.message\<close> reads the text.\<close>

datatype excepcion = Error string | TypeError string

fun message :: "excepcion \<Rightarrow> string" where
  "message (Error m) = m"
| "message (TypeError m) = m"

text \<open>
  \<open>Math.random()\<close> is a sequence of draws from \<open>[0, 1)\<close> fixed from outside; the world
  counts the draws taken and the milliseconds waited in \<open>delay\<close>, where the timer set
  for a delay takes what the engine says. The lines printed on the console are not part
  of the model.
\<close>

record mundo =
  reloj :: int
  sorteos :: nat

definition tiempoAleatorio :: "engine \<Rightarrow> real \<Rightarrow> jsnum" where
  "tiempoAleatorio E u =
     (let min = 300; max = 2000
      in num_add E (math_floor (num_mul E (Fin u) (Fin (max - min + 1)))) (Fin min))"

text \<open>\<open>await delay(tiempoAleatorio())\<close>.\<close>

definition esperar :: "engine \<Rightarrow> (nat \<Rightarrow> real) \<Rightarrow> mundo \<Rightarrow> mundo" where
  "esperar E azar w =
     w\<lparr>reloj := reloj w + timer_ms E (tiempoAleatorio E (azar (sorteos w))),
       sorteos := Suc (sorteos w)\<rparr>"

section \<open>Operations by batch\<close>

fun elements :: "jsval \<Rightarrow> jsval list" where
  "elements (JArr vs) = vs"
| "elements _ = []"

definition validarOperacion :: "engine \<Rightarrow> jsval \<Rightarrow> excepcion + jsval" where
  "validarOperacion E op =
     (if falsy op then
        Inl (Error (''La operaci'' @ [o_ac] @ ''n se encuentra vac'' @ [i_ac] @ ''a o indefinida.''))
      else if typeof (get_prop op ''id'') \<noteq> ''string'' \<and> typeof (get_prop op ''id'') \<noteq> ''number'' then
        Inl (Error (''Operaci'' @ [o_ac] @ ''n inv'' @ [a_ac] @ ''lida: el id '' @ [dq]
                    @ js_to_string E (get_prop op ''id'') @ [dq] @ '' no es v'' @ [a_ac]
                    @ ''lido (debe ser string o number).''))
      else if \<not> isArray (get_prop op ''valores'') then
        Inl (Error (''Operaci'' @ [o_ac] @ ''n '' @ js_to_string E (get_prop op ''id'')
                    @ '': '' @ [sq] @ ''valores'' @ [sq] @ '' debe ser un arreglo.''))
      else if length (elements (get_prop op ''valores'')) = 0 then
        Inl (Error (''Operaci'' @ [o_ac] @ ''n '' @ js_to_string E (get_prop op ''id'')
                    @ '': el arreglo de valores est'' @ [a_ac] @ '' vac'' @ [i_ac] @ ''o.''))
      else if \<not> list_all (\<lambda>v. typeof v = ''number'') (elements (get_prop op ''valores'')) then
        Inl (Error (''Operaci'' @ [o_ac] @ ''n '' @ js_to_string E (get_prop op ''id'')
                    @ '': todos los valores deben ser num'' @ [e_ac] @ ''ricos.''))
      else if typeof (get_prop op ''tipo'') \<noteq> ''string'' then
        Inl (Error (''Operaci'' @ [o_ac] @ ''n '' @ js_to_string E (get_prop op ''id'')
                    @ '': el tipo debe ser un string.''))
      else if typeof (get_prop op ''activa'') \<noteq> ''boolean'' then
        Inl (Error (''Operaci'' @ [o_ac] @ ''n '' @ js_to_string E (get_prop op ''id'')
                    @ '': el campo '' @ [sq] @ ''activa'' @ [sq] @ '' debe ser booleano.''))
      else Inr JUndefined)"

text \<open>\<open>Array.prototype.reduce\<close> with an initial value: one pass from left to right.\<close>

fun reduce :: "('b \<Rightarrow> 'a \<Rightarrow> 'b) \<Rightarrow> 'a list \<Rightarrow> 'b \<Rightarrow> 'b" where
  "reduce f [] acum = acum"
| "reduce f (elemento # resto) acum = reduce f resto (f acum elemento)"

text \<open>
  \<open>calcularResultado\<close> is private to its module and its one call follows a successful
  \<open>validarOperacion\<close>, so every element it reads is a number: \<open>+\<close> and \<open>*\<close> are the
  numeric operators, each step of the reduction rounded as binary64 rounds it.
\<close>

fun the_number :: "jsval \<Rightarrow> jsnum" where
  "the_number (JNum n) = n"
| "the_number _ = NaN"

definition calcularResultado :: "engine \<Rightarrow> jsval \<Rightarrow> excepcion + jsnum" where
  "calcularResultado E op =
     (if get_prop op ''tipo'' = JStr ''suma'' then
        Inr (reduce (\<lambda>acum elemento. num_add E acum elemento)
               (map the_number (elements (get_prop op ''valores''))) (Fin 0))
      else if get_prop op ''tipo'' = JStr ''multiplicacion'' then
        Inr (reduce (\<lambda>acum elemento. num_mul E acum elemento)
               (map the_number (elements (get_prop op ''valores''))) (Fin 1))
      else
        Inl (Error (''Tipo de operaci'' @ [o_ac] @ ''n no reconocido: ''
                    @ js_to_string E (get_prop op ''tipo''))))"

definition resultado_op :: "jsval \<Rightarrow> string \<Rightarrow> string \<Rightarrow> jsval" where
  "resultado_op i estado motivo =
     JObj [(''id'', i), (''estado'', JStr estado), (''motivo'', JStr motivo)]"

definition procesarOperacion ::
  "engine \<Rightarrow> (nat \<Rightarrow> real) \<Rightarrow> jsval \<Rightarrow> mundo \<Rightarrow> jsval \<times> mundo" where
  "procesarOperacion E azar op w =
     (case validarOperacion E op of
        Inl err \<Rightarrow>
          (resultado_op (id_o_desconocido op) ''rechazada'' (''Error: '' @ message err), w)
      | Inr _ \<Rightarrow>
          if falsy (get_prop op ''activa'') then
            (resultado_op (get_prop op ''id'') ''rechazada''
               (''La operaci'' @ [o_ac] @ ''n est'' @ [a_ac] @ '' desactivada.''), w)
          else
            let w' = esperar E azar w in
            (case calcularResultado E op of
               Inl err \<Rightarrow>
                 (resultado_op (id_o_desconocido op) ''rechazada''
                    (''Error: '' @ message err), w')
             | Inr resultado \<Rightarrow>
                 if num_lt resultado (Fin 0) then
                   (resultado_op (get_prop op ''id'') ''rechazada''
                      (''El resultado ('' @ num_to_string E resultado @ '') es negativo.''), w')
                 else
                   (resultado_op (get_prop op ''id'') ''aprobada''
                      (''Operaci'' @ [o_ac] @ ''n realizada correctamente. Resultado = ''
                       @ num_to_string E resultado), w')))"

definition mk_operacion :: "int \<Rightarrow> jsval list \<Rightarrow> string \<Rightarrow> bool \<Rightarrow> jsval" where
  "mk_operacion i vs t a =
     JObj [(''id'', JNum (Fin (of_int i))), (''valores'', JArr vs), (''tipo'', JStr t),
           (''activa'', JBool a)]"

abbreviation N :: "int \<Rightarrow> jsval" where "N i \<equiv> JNum (Fin (of_int i))"

definition arrObjeto :: "jsval list" where
  "arrObjeto =
     [mk_operacion 1 [N 10, N 20, N 30] ''suma'' True,
      mk_operacion 2 [N 2, N 3, N 4] ''multiplicacion'' True,
      mk_operacion 3 [] ''suma'' True,
      mk_operacion 4 [N 5, JStr ''x'', N 7] ''suma'' True,
      mk_operacion 5 [N 10, N (- 50)] ''suma'' True,
      mk_operacion 6 [N 1, N 2, N 3] ''division'' True,
      mk_operacion 7 [N 9, N 9] ''suma'' False]"

text \<open>The state of a run: the results pushed so far and the world.\<close>

record corrida =
  resultados :: "jsval list"
  al_final :: mundo

record resumen = corrida +
  aprobadas :: nat
  rechazadas :: nat

definition estado_es :: "string \<Rightarrow> jsval \<Rightarrow> bool" where
  "estado_es e r = (get_prop r ''estado'' = JStr e)"

text \<open>The two \<open>filter(...).length\<close> counts after the loop.\<close>

definition resumir :: "corrida \<Rightarrow> resumen" where
  "resumir st =
     \<lparr>resultados = resultados st, al_final = al_final st,
      aprobadas = length (filter (estado_es ''aprobada'') (resultados st)),
      rechazadas = length (filter (estado_es ''rechazada'') (resultados st))\<rparr>"

text \<open>The \<open>for ... of\<close> loop of \<open>ejecutarOperaciones\<close>: each result is pushed on
  \<open>resultados\<close> before the next record starts.\<close>

fun bucle_operaciones ::
  "engine \<Rightarrow> (nat \<Rightarrow> real) \<Rightarrow> jsval list \<Rightarrow> corrida \<Rightarrow> corrida" where
  "bucle_operaciones E azar [] st = st"
| "bucle_operaciones E azar (op # operaciones) st =
     (case procesarOperacion E azar op (al_final st) of
        (resultado, w') \<Rightarrow>
          bucle_operaciones E azar operaciones
            \<lparr>resultados = resultados st @ [resultado], al_final = w'\<rparr>)"

text \<open>The body of \<open>ejecutarOperaciones\<close> over any array, and the function itself on its
  fixed array.\<close>

definition ejecutarOperaciones_con ::
  "engine \<Rightarrow> (nat \<Rightarrow> real) \<Rightarrow> jsval list \<Rightarrow> mundo \<Rightarrow> resumen" where
  "ejecutarOperaciones_con E azar operaciones w =
     resumir (bucle_operaciones E azar operaciones \<lparr>resultados = [], al_final = w\<rparr>)"

definition ejecutarOperaciones :: "engine \<Rightarrow> (nat \<Rightarrow> real) \<Rightarrow> mundo \<Rightarrow> resumen" where
  "ejecutarOperaciones E azar w = ejecutarOperaciones_con E azar arrObjeto w"

section \<open>Promises and callbacks\<close>

text \<open>
  A callback \<open>(err, res) => ...\<close> acts on a state of its caller's choosing and returns
  normally, as the one callback of the repository, \<open>(err, res) => resolve(res)\<close>, does.
  A promise is pending (\<open>None\<close>) or settled with a value; \<open>resolve\<close> settles a pending
  promise and is ignored on a settled one. An \<open>await\<close> on a promise that stays pending
  never resumes: the run has no result.
\<close>

type_synonym 's callback = "jsval \<Rightarrow> jsval \<Rightarrow> 's \<Rightarrow> 's"

definition resolve :: "jsval \<Rightarrow> jsval option \<Rightarrow> jsval option" where
  "resolve v p = (case p of None \<Rightarrow> Some v | Some u \<Rightarrow> Some u)"

text \<open>A callback that only records its two arguments.\<close>

definition registrar :: "(jsval \<times> jsval) list callback" where
  "registrar err res llamadas = llamadas @ [(err, res)]"

text \<open>\<open>v.name\<close> where \<open>v\<close> may be \<open>null\<close> or \<open>undefined\<close>: the read throws.\<close>

definition leer :: "engine \<Rightarrow> jsval \<Rightarrow> string \<Rightarrow> excepcion + jsval" where
  "leer E v name =
     (if v = JUndefined \<or> v = JNull then Inl (TypeError (type_error_msg E v name))
      else Inr (get_prop v name))"

text \<open>The text of a value already known to be a string.\<close>

fun the_string :: "jsval \<Rightarrow> string" where
  "the_string (JStr s) = s"
| "the_string _ = []"

section \<open>Service requests\<close>

text \<open>The seven \<open>throw\<close> statements at the head of the \<open>try\<close> block of
  \<open>validarSolicitudConCallback\<close>, in their order.\<close>

definition comprobar_solicitud :: "engine \<Rightarrow> jsval \<Rightarrow> excepcion + unit" where
  "comprobar_solicitud E solicitud =
     (if falsy solicitud then
        Inl (Error (''La solicitud se encuentra vac'' @ [i_ac] @ ''a o indefinida.''))
      else if typeof (get_prop solicitud ''id'') \<noteq> ''number'' then
        Inl (Error (''Solicitud inv'' @ [a_ac] @ ''lida: id '' @ [dq]
                    @ js_to_string E (get_prop solicitud ''id'') @ [dq]
                    @ '' no es num'' @ [e_ac] @ ''rico.''))
      else if typeof (get_prop solicitud ''cliente'') \<noteq> ''string''
              \<or> length (trim (the_string (get_prop solicitud ''cliente''))) = 0 then
        Inl (Error (''Solicitud '' @ js_to_string E (get_prop solicitud ''id'')
                    @ '': el cliente debe ser un string y no debe estar vac'' @ [i_ac] @ ''o.''))
      else if typeof (get_prop solicitud ''tipoServicio'') \<noteq> ''string'' then
        Inl (Error (''Solicitud '' @ js_to_string E (get_prop solicitud ''id'')
                    @ '': el tipo de servicio debe ser un string.''))
      else if typeof (get_prop solicitud ''prioridad'') \<noteq> ''number''
              \<or> num_lt (the_number (get_prop solicitud ''prioridad'')) (Fin 1)
              \<or> num_gt (the_number (get_prop solicitud ''prioridad'')) (Fin 5) then
        Inl (Error (''Solicitud '' @ js_to_string E (get_prop solicitud ''id'')
                    @ '': la prioridad debe ser un n'' @ [u_ac] @ ''mero entre 1 y 5.''))
      else if typeof (get_prop solicitud ''activo'') \<noteq> ''boolean'' then
        Inl (Error (''Solicitud '' @ js_to_string E (get_prop solicitud ''id'')
                    @ '': el campo '' @ [sq] @ ''activo'' @ [sq] @ '' debe ser booleano.''))
      else if \<not> (typeof (get_prop solicitud ''fechaSolicitud'') = ''string''
                 \<or> instanceofDate (get_prop solicitud ''fechaSolicitud'')) then
        Inl (Error (''Solicitud '' @ js_to_string E (get_prop solicitud ''id'')
                    @ '': la fecha debe ser string o Date.''))
      else Inr ())"

definition validarSolicitudConCallback :: "engine \<Rightarrow> jsval \<Rightarrow> 's callback \<Rightarrow> 's \<Rightarrow> 's" where
  "validarSolicitudConCallback E solicitud callback s =
     (case comprobar_solicitud E solicitud of
        Inl err \<Rightarrow>
          callback JNull
            (resultado_op (id_o_desconocido solicitud) ''rechazada'' (''Error: '' @ message err)) s
      | Inr _ \<Rightarrow>
          if falsy (get_prop solicitud ''activo'') then
            callback JNull
              (resultado_op (get_prop solicitud ''id'') ''rechazada''
                 (''La solicitud est'' @ [a_ac] @ '' inactiva.'')) s
          else callback JNull solicitud s)"

text \<open>\<open>solicitud.tipoServicio.toLowerCase()\<close>: both the read and the call can throw.\<close>

definition tipoServicio_lower :: "engine \<Rightarrow> jsval \<Rightarrow> excepcion + string" where
  "tipoServicio_lower E solicitud =
     (case leer E solicitud ''tipoServicio'' of
        Inl err \<Rightarrow> Inl err
      | Inr (JStr t) \<Rightarrow> Inr (toLowerCase t)
      | Inr v \<Rightarrow> Inl (TypeError (type_error_msg E v ''toLowerCase'')))"

text \<open>The value the promise of \<open>procesarSolicitudConPromesa\<close> resolves with (every path
  of its executor reaches one \<open>resolve\<close>), and the world after the wait.\<close>

definition procesarSolicitudConPromesa ::
  "engine \<Rightarrow> (nat \<Rightarrow> real) \<Rightarrow> jsval \<Rightarrow> mundo \<Rightarrow> jsval \<times> mundo" where
  "procesarSolicitudConPromesa E azar solicitud w =
     (let w' = esperar E azar w in
      case tipoServicio_lower E solicitud of
        Inl err \<Rightarrow>
          (resultado_op (id_o_desconocido solicitud) ''rechazada'' (''Error: '' @ message err), w')
      | Inr t \<Rightarrow>
          if t = ''instalacion'' \<or> t = ''mantenimiento'' \<or> t = ''soporte'' then
            (resultado_op (get_prop solicitud ''id'') ''aprobada''
               (''Solicitud de '' @ js_to_string E (get_prop solicitud ''tipoServicio'')
                @ '' aprobada para cliente '' @ js_to_string E (get_prop solicitud ''cliente'')
                @ ''.''), w')
          else
            (resultado_op (get_prop solicitud ''id'') ''rechazada''
               (''Tipo de servicio no reconocido: ''
                @ js_to_string E (get_prop solicitud ''tipoServicio'')), w'))"

definition mk_solicitud ::
  "int \<Rightarrow> string \<Rightarrow> string \<Rightarrow> int \<Rightarrow> bool \<Rightarrow> jsval \<Rightarrow> jsval" where
  "mk_solicitud i c t p a f =
     JObj [(''id'', N i), (''cliente'', JStr c), (''tipoServicio'', JStr t),
           (''prioridad'', N p), (''activo'', JBool a), (''fechaSolicitud'', f)]"

text \<open>The fixed array; \<open>ahora\<close> is the clock reading of its one \<open>new Date()\<close>.\<close>

definition arrSolicitudes :: "int \<Rightarrow> jsval list" where
  "arrSolicitudes ahora =
     [mk_solicitud 1 ''Carlos'' ''instalacion'' 3 True (JStr ''2025-12-01''),
      mk_solicitud 2 ''Ana'' ''mantenimiento'' 5 True (JDate ahora),
      mk_solicitud 3 [] ''soporte'' 2 True (JStr ''2025-12-02''),
      mk_solicitud 4 ''Luis'' ''auditoria'' 4 True (JStr ''2025-12-03''),
      mk_solicitud 5 ''Marta'' ''soporte'' 7 True (JStr ''2025-12-04''),
      mk_solicitud 6 ''Pedro'' ''instalacion'' 1 False (JStr ''2025-12-05'')]"

text \<open>One iteration of the loop of \<open>ejecutarSolicitudes\<close>. \<open>None\<close>: the first \<open>await\<close>
  never resumes, because the validator left the promise pending.\<close>

definition paso_solicitud ::
  "engine \<Rightarrow> (nat \<Rightarrow> real) \<Rightarrow> jsval \<Rightarrow> corrida \<Rightarrow> corrida option" where
  "paso_solicitud E azar sol st =
     (case validarSolicitudConCallback E sol (\<lambda>err res. resolve res) None of
        None \<Rightarrow> None
      | Some validada \<Rightarrow>
          (case leer E validada ''estado'' of
             Inl err \<Rightarrow>
               Some (st\<lparr>resultados := resultados st
                         @ [resultado_op (id_o_desconocido sol) ''rechazada''
                              (''Error inesperado: '' @ message err)]\<rparr>)
           | Inr estado \<Rightarrow>
               if estado = JStr ''rechazada'' then
                 Some (st\<lparr>resultados := resultados st @ [validada]\<rparr>)
               else
                 (case procesarSolicitudConPromesa E azar validada (al_final st) of
                    (resultado, w') \<Rightarrow>
                      Some \<lparr>resultados = resultados st @ [resultado], al_final = w'\<rparr>)))"

fun bucle_solicitudes ::
  "engine \<Rightarrow> (nat \<Rightarrow> real) \<Rightarrow> jsval list \<Rightarrow> corrida \<Rightarrow> corrida option" where
  "bucle_solicitudes E azar [] st = Some st"
| "bucle_solicitudes E azar (sol # solicitudes) st =
     (case paso_solicitud E azar sol st of
        None \<Rightarrow> None
      | Some st' \<Rightarrow> bucle_solicitudes E azar solicitudes st')"

definition ejecutarSolicitudes_con ::
  "engine \<Rightarrow> (nat \<Rightarrow> real) \<Rightarrow> jsval list \<Rightarrow> mundo \<Rightarrow> resumen option" where
  "ejecutarSolicitudes_con E azar solicitudes w =
     map_option resumir (bucle_solicitudes E azar solicitudes \<lparr>resultados = [], al_final = w\<rparr>)"

definition ejecutarSolicitudes ::
  "engine \<Rightarrow> (nat \<Rightarrow> real) \<Rightarrow> int \<Rightarrow> mundo \<Rightarrow> resumen option" where
  "ejecutarSolicitudes E azar ahora w = ejecutarSolicitudes_con E azar (arrSolicitudes ahora) w"

section \<open>Transactions and risk control\<close>

text \<open>The seven \<open>throw\<close> statements at the head of the \<open>try\<close> block of
  \<open>validarTransaccionConCallback\<close>, in their order.\<close>

definition comprobar_transaccion :: "engine \<Rightarrow> jsval \<Rightarrow> excepcion + unit" where
  "comprobar_transaccion E transaccion =
     (if falsy transaccion then
        Inl (Error (''La transacci'' @ [o_ac] @ ''n est'' @ [a_ac] @ '' vac'' @ [i_ac]
                    @ ''a o indefinida.''))
      else if typeof (get_prop transaccion ''id'') \<noteq> ''number''
              \<or> \<not> isInteger (the_number (get_prop transaccion ''id''))
              \<or> num_le (the_number (get_prop transaccion ''id'')) (Fin 0) then
        Inl (Error (''Transacci'' @ [o_ac] @ ''n inv'' @ [a_ac] @ ''lida: id '' @ [dq]
                    @ js_to_string E (get_prop transaccion ''id'') @ [dq]
                    @ '' debe ser entero positivo.''))
      else if typeof (get_prop transaccion ''usuario'') \<noteq> ''string''
              \<or> length (trim (the_string (get_prop transaccion ''usuario''))) = 0 then
        Inl (Error (''Transacci'' @ [o_ac] @ ''n '' @ js_to_string E (get_prop transaccion ''id'')
                    @ '': el usuario debe ser un string no vac'' @ [i_ac] @ ''o.''))
      else if typeof (get_prop transaccion ''monto'') \<noteq> ''number''
              \<or> \<not> isFinite (the_number (get_prop transaccion ''monto''))
              \<or> get_prop transaccion ''monto'' = JNum (Fin 0) then
        Inl (Error (''Transacci'' @ [o_ac] @ ''n '' @ js_to_string E (get_prop transaccion ''id'')
                    @ '': el monto debe ser un n'' @ [u_ac] @ ''mero finito distinto de 0.''))
      else if typeof (get_prop transaccion ''tipo'') \<noteq> ''string'' then
        Inl (Error (''Transacci'' @ [o_ac] @ ''n '' @ js_to_string E (get_prop transaccion ''id'')
                    @ '': el tipo debe ser un string.''))
      else if typeof (get_prop transaccion ''autorizada'') \<noteq> ''boolean'' then
        Inl (Error (''Transacci'' @ [o_ac] @ ''n '' @ js_to_string E (get_prop transaccion ''id'')
                    @ '': el campo '' @ [sq] @ ''autorizada'' @ [sq] @ '' debe ser booleano.''))
      else if \<not> (typeof (get_prop transaccion ''fecha'') = ''string''
                 \<or> instanceofDate (get_prop transaccion ''fecha'')) then
        Inl (Error (''Transacci'' @ [o_ac] @ ''n '' @ js_to_string E (get_prop transaccion ''id'')
                    @ '': la fecha debe ser string o Date.''))
      else Inr ())"

definition resultado_tx :: "jsval \<Rightarrow> string \<Rightarrow> string \<Rightarrow> jsval" where
  "resultado_tx i clasificacion motivo =
     JObj [(''id'', i), (''clasificacion'', JStr clasificacion), (''motivo'', JStr motivo)]"

definition resultado_tx_monto ::
  "jsval \<Rightarrow> string \<Rightarrow> string \<Rightarrow> string \<Rightarrow> jsval \<Rightarrow> jsval" where
  "resultado_tx_monto i clasificacion motivo tipo monto =
     JObj [(''id'', i), (''clasificacion'', JStr clasificacion), (''motivo'', JStr motivo),
           (''tipo'', JStr tipo), (''monto'', monto)]"

text \<open>\<open>validarTransaccionConCallback\<close> as \<open>ejercicio1.js\<close> defines it: the coherence
  rule after the seven checks, then the success call.\<close>

definition validarTransaccionConCallback ::
  "engine \<Rightarrow> jsval \<Rightarrow> 's callback \<Rightarrow> 's \<Rightarrow> 's" where
  "validarTransaccionConCallback E transaccion callback s =
     (case comprobar_transaccion E transaccion of
        Inl err \<Rightarrow>
          callback JNull
            (resultado_tx (id_o_desconocido transaccion) ''invalida''
               (''Error: '' @ message err)) s
      | Inr _ \<Rightarrow>
          let tipoLower = toLowerCase (js_to_string E (get_prop transaccion ''tipo'')) in
          if tipoLower = ''ingreso''
             \<and> num_le (the_number (get_prop transaccion ''monto'')) (Fin 0) then
            callback JNull
              (resultado_tx (get_prop transaccion ''id'') ''invalida''
                 ''Ingreso con monto <= 0 es incoherente.'') s
          else if tipoLower = ''egreso''
             \<and> num_le (the_number (get_prop transaccion ''monto'')) (Fin 0) then
            callback JNull
              (resultado_tx (get_prop transaccion ''id'') ''invalida''
                 ''Egreso con monto <= 0 es incoherente.'') s
          else callback JNull transaccion s)"

text \<open>The second definition of the same function, in the module after it
  (\<open>transacciones.module.js\<close>): its success call is commented out, so a transaction that
  passes every rule leaves the \<open>try\<close> block without a call.\<close>

definition validarTransaccionConCallback_modulo ::
  "engine \<Rightarrow> jsval \<Rightarrow> 's callback \<Rightarrow> 's \<Rightarrow> 's" where
  "validarTransaccionConCallback_modulo E transaccion callback s =
     (case comprobar_transaccion E transaccion of
        Inl err \<Rightarrow>
          callback JNull
            (resultado_tx (id_o_desconocido transaccion) ''invalida''
               (''Error: '' @ message err)) s
      | Inr _ \<Rightarrow>
          let tipoLower = toLowerCase (js_to_string E (get_prop transaccion ''tipo'')) in
          if tipoLower = ''ingreso''
             \<and> num_le (the_number (get_prop transaccion ''monto'')) (Fin 0) then
            callback JNull
              (resultado_tx (get_prop transaccion ''id'') ''invalida''
                 ''Ingreso con monto <= 0 es incoherente.'') s
          else if tipoLower = ''egreso''
             \<and> num_le (the_number (get_prop transaccion ''monto'')) (Fin 0) then
            callback JNull
              (resultado_tx (get_prop transaccion ''id'') ''invalida''
                 ''Egreso con monto <= 0 es incoherente.'') s
          else s)"

text \<open>The value the promise of \<open>procesarTransaccionConPromesa\<close> resolves with, and the
  world after the wait. Reading \<open>transaccion.tipo\<close> throws on \<open>null\<close> and
  \<open>undefined\<close>; the \<open>catch\<close> resolves too.\<close>

definition procesarTransaccionConPromesa ::
  "engine \<Rightarrow> (nat \<Rightarrow> real) \<Rightarrow> jsval \<Rightarrow> mundo \<Rightarrow> jsval \<times> mundo" where
  "procesarTransaccionConPromesa E azar transaccion w =
     (let w' = esperar E azar w in
      case leer E transaccion ''tipo'' of
        Inl err \<Rightarrow>
          (resultado_tx (id_o_desconocido transaccion) ''invalida''
             (''Error de procesamiento: '' @ message err), w')
      | Inr tipo \<Rightarrow>
          let tipoLower = toLowerCase (js_to_string E tipo) in
          if tipoLower \<noteq> ''ingreso'' \<and> tipoLower \<noteq> ''egreso'' then
            (resultado_tx (get_prop transaccion ''id'') ''invalida''
               (''Tipo no reconocido: '' @ js_to_string E tipo), w')
          else if get_prop transaccion ''autorizada'' = JBool True then
            (resultado_tx_monto (get_prop transaccion ''id'') ''valida''
               (''Transacci'' @ [o_ac] @ ''n '' @ tipoLower @ '' autorizada para usuario ''
                @ js_to_string E (get_prop transaccion ''usuario'') @ ''.'')
               tipoLower (get_prop transaccion ''monto''), w')
          else
            (resultado_tx_monto (get_prop transaccion ''id'') ''sospechosa''
               (''Transacci'' @ [o_ac] @ ''n '' @ tipoLower @ '' NO autorizada para usuario ''
                @ js_to_string E (get_prop transaccion ''usuario'') @ ''.'')
               tipoLower (get_prop transaccion ''monto''), w'))"

definition mk_transaccion ::
  "int \<Rightarrow> string \<Rightarrow> int \<Rightarrow> string \<Rightarrow> bool \<Rightarrow> jsval \<Rightarrow> jsval" where
  "mk_transaccion i u m t a f =
     JObj [(''id'', N i), (''usuario'', JStr u), (''monto'', N m), (''tipo'', JStr t),
           (''autorizada'', JBool a), (''fecha'', f)]"

definition arrTransacciones :: "int \<Rightarrow> jsval list" where
  "arrTransacciones ahora =
     [mk_transaccion 1 ''Sebas'' 500 ''ingreso'' True (JStr ''2025-12-01''),
      mk_transaccion 2 ''Karol'' 300 ''egreso'' True (JDate ahora),
      mk_transaccion 3 ''Juan'' (- 200) ''ingreso'' True (JStr ''2025-12-02''),
      mk_transaccion 4 ''Nicolle'' 150 ''egreso'' False (JStr ''2025-12-03''),
      mk_transaccion 5 [] 100 ''ingreso'' True (JStr ''2025-12-04''),
      mk_transaccion 6 ''Santi'' 0 ''egreso'' True (JStr ''2025-12-05''),
      mk_transaccion 7 ''David'' 250 ''transfer'' True (JStr ''2025-12-06'')]"

text \<open>The operator \<open>+\<close> on two values: numeric when neither operand is a string or an
  object, the concatenation of the two texts otherwise.\<close>

fun number_or_text :: "jsval \<Rightarrow> jsnum option" where
  "number_or_text JUndefined = Some NaN"
| "number_or_text JNull = Some (Fin 0)"
| "number_or_text (JBool b) = Some (Fin (if b then 1 else 0))"
| "number_or_text (JNum n) = Some n"
| "number_or_text _ = None"

definition js_plus :: "engine \<Rightarrow> jsval \<Rightarrow> jsval \<Rightarrow> jsval" where
  "js_plus E a b =
     (case (number_or_text a, number_or_text b) of
        (Some x, Some y) \<Rightarrow> JNum (num_add E x y)
      | _ \<Rightarrow> JStr (js_to_string E a @ js_to_string E b))"

text \<open>The arrays and accumulators of \<open>ejecutarAnalisis\<close>.\<close>

record analisis = corrida +
  validas :: "jsval list"
  sospechosas :: "jsval list"
  invalidas :: "jsval list"
  totalIngresos :: jsval
  totalEgresos :: jsval

definition acumular :: "engine \<Rightarrow> jsval \<Rightarrow> analisis \<Rightarrow> analisis" where
  "acumular E procesada st =
     (if get_prop procesada ''clasificacion'' = JStr ''valida'' then
        (let st' = st\<lparr>validas := validas st @ [procesada]\<rparr> in
         if get_prop procesada ''tipo'' = JStr ''ingreso'' then
           st'\<lparr>totalIngresos := js_plus E (totalIngresos st') (get_prop procesada ''monto'')\<rparr>
         else if get_prop procesada ''tipo'' = JStr ''egreso'' then
           st'\<lparr>totalEgresos := js_plus E (totalEgresos st') (get_prop procesada ''monto'')\<rparr>
         else st')
      else if get_prop procesada ''clasificacion'' = JStr ''sospechosa'' then
        st\<lparr>sospechosas := sospechosas st @ [procesada]\<rparr>
      else st\<lparr>invalidas := invalidas st @ [procesada]\<rparr>)"

text \<open>One iteration of the loop of \<open>ejecutarAnalisis\<close>, which calls the first of the
  two validators. \<open>None\<close>: the first \<open>await\<close> never resumes.\<close>

definition paso_transaccion ::
  "engine \<Rightarrow> (nat \<Rightarrow> real) \<Rightarrow> jsval \<Rightarrow> analisis \<Rightarrow> analisis option" where
  "paso_transaccion E azar t st =
     (case validarTransaccionConCallback E t (\<lambda>err res. resolve res) None of
        None \<Rightarrow> None
      | Some validada \<Rightarrow>
          (case leer E validada ''clasificacion'' of
             Inl err \<Rightarrow>
               (let fallo = resultado_tx (id_o_desconocido t) ''invalida''
                              (''Error inesperado: '' @ message err)
                in Some (st\<lparr>resultados := resultados st @ [fallo],
                             invalidas := invalidas st @ [fallo]\<rparr>))
           | Inr clasificacion \<Rightarrow>
               if clasificacion = JStr ''invalida'' then
                 Some (st\<lparr>resultados := resultados st @ [validada],
                          invalidas := invalidas st @ [validada]\<rparr>)
               else
                 (case procesarTransaccionConPromesa E azar validada (al_final st) of
                    (procesada, w') \<Rightarrow>
                      Some (acumular E procesada
                              (st\<lparr>resultados := resultados st @ [procesada],
                                  al_final := w'\<rparr>)))))"

fun bucle_transacciones ::
  "engine \<Rightarrow> (nat \<Rightarrow> real) \<Rightarrow> jsval list \<Rightarrow> analisis \<Rightarrow> analisis option" where
  "bucle_transacciones E azar [] st = Some st"
| "bucle_transacciones E azar (t # transacciones) st =
     (case paso_transaccion E azar t st of
        None \<Rightarrow> None
      | Some st' \<Rightarrow> bucle_transacciones E azar transacciones st')"

definition inicio_analisis :: "mundo \<Rightarrow> analisis" where
  "inicio_analisis w =
     \<lparr>resultados = [], al_final = w, validas = [], sospechosas = [], invalidas = [],
      totalIngresos = JNum (Fin 0), totalEgresos = JNum (Fin 0)\<rparr>"

definition ejecutarAnalisis_con ::
  "engine \<Rightarrow> (nat \<Rightarrow> real) \<Rightarrow> jsval list \<Rightarrow> mundo \<Rightarrow> analisis option" where
  "ejecutarAnalisis_con E azar transacciones w =
     bucle_transacciones E azar transacciones (inicio_analisis w)"

definition ejecutarAnalisis ::
  "engine \<Rightarrow> (nat \<Rightarrow> real) \<Rightarrow> int \<Rightarrow> mundo \<Rightarrow> analisis option" where
  "ejecutarAnalisis E azar ahora w = ejecutarAnalisis_con E azar (arrTransacciones ahora) w"

text \<open>\<open>balanceFinal = totalIngresos - totalEgresos\<close>: the operator \<open>-\<close> converts both
  operands to numbers.\<close>

fun to_number :: "engine \<Rightarrow> jsval \<Rightarrow> jsnum" where
  "to_number E JUndefined = NaN"
| "to_number E JNull = Fin 0"
| "to_number E (JBool b) = Fin (if b then 1 else 0)"
| "to_number E (JNum n) = n"
| "to_number E (JStr s) = parse_num E s"
| "to_number E (JDate t) = Fin (of_int t)"
| "to_number E v = parse_num E (js_to_string E v)"

fun num_neg :: "jsnum \<Rightarrow> jsnum" where
  "num_neg (Fin a) = Fin (- a)"
| "num_neg NaN = NaN"
| "num_neg PInf = NInf"
| "num_neg NInf = PInf"

definition balanceFinal :: "engine \<Rightarrow> analisis \<Rightarrow> jsval" where
  "balanceFinal E st =
     JNum (num_add E (to_number E (totalIngresos st)) (num_neg (to_number E (totalEgresos st))))"

section \<open>Quantities of the statements\<close>

text \<open>The number of results filed in the three arrays of \<open>ejecutarAnalisis\<close>.\<close>

definition clasificadas :: "analisis \<Rightarrow> nat" where
  "clasificadas st = length (validas st) + length (sospechosas st) + length (invalidas st)"

text \<open>The amount a result carries, and the exact sum of the amounts of the results of
  one kind.\<close>

definition monto_real :: "jsval \<Rightarrow> real" where
  "monto_real r = (case get_prop r ''monto'' of JNum (Fin m) \<Rightarrow> m | _ \<Rightarrow> 0)"

definition suma_montos :: "string \<Rightarrow> jsval list \<Rightarrow> real" where
  "suma_montos k rs = sum_list (map monto_real (filter (\<lambda>r. get_prop r ''tipo'' = JStr k) rs))"

section \<open>Concrete runs\<close>

text \<open>An engine and a world for evaluating runs on concrete records. None of the texts
  this engine would choose is asked for there, and every sum and product those runs
  compute is an integer of small magnitude or a multiple of a quarter, which binary64
  holds exactly: on them the rounding returns the exact result. Its timers fire on
  time.\<close>

definition motor :: engine where
  "motor = \<lparr>num_str = (\<lambda>r. []), date_str = (\<lambda>t. []), type_error_msg = (\<lambda>v name. []),
            parse_num = (\<lambda>s. NaN), round64 = (\<lambda>x. Fin x),
            timer_ms = (\<lambda>ms. case ms of Fin x \<Rightarrow> \<lfloor>x\<rfloor> | _ \<Rightarrow> 0)\<rparr>"

definition mundo0 :: mundo where
  "mundo0 = \<lparr>reloj = 0, sorteos = 0\<rparr>"

lemmas evaluar =
  validarOperacion_def calcularResultado_def procesarOperacion_def resultado_op_def
  mk_operacion_def arrObjeto_def ejecutarOperaciones_con_def ejecutarOperaciones_def
  resumir_def estado_es_def esperar_def tiempoAleatorio_def num_to_string_def int_str_def digit_char_def
  id_o_desconocido_def toLowerCase_def lower_char_def char_of_def bit_Suc_0_iff trim_def
  is_space_def resolve_def registrar_def leer_def comprobar_solicitud_def
  validarSolicitudConCallback_def tipoServicio_lower_def procesarSolicitudConPromesa_def
  mk_solicitud_def arrSolicitudes_def paso_solicitud_def ejecutarSolicitudes_con_def
  ejecutarSolicitudes_def comprobar_transaccion_def resultado_tx_def resultado_tx_monto_def
  validarTransaccionConCallback_def validarTransaccionConCallback_modulo_def
  procesarTransaccionConPromesa_def mk_transaccion_def arrTransacciones_def js_plus_def
  acumular_def paso_transaccion_def inicio_analisis_def ejecutarAnalisis_con_def
  ejecutarAnalisis_def num_gt_def motor_def mundo0_def Let_def

section \<open>Operations: validation and classification\<close>





lemma typeof_string: "typeof v = ''string'' \<Longrightarrow> \<exists>s. v = JStr s"
  by (cases v) simp_all

lemma typeof_number: "typeof v = ''number'' \<Longrightarrow> \<exists>n. v = JNum n"
  by (cases v) simp_all

lemma typeof_boolean: "typeof v = ''boolean'' \<Longrightarrow> \<exists>b. v = JBool b"
  by (cases v) simp_all




lemma id_conocido:
  assumes "\<not> falsy v"
    and "typeof (get_prop v ''id'') = ''string'' \<or> typeof (get_prop v ''id'') = ''number''"
  shows "id_o_desconocido v = get_prop v ''id''"
proof -
  from assms(1) have v: "v \<noteq> JUndefined" "v \<noteq> JNull" by auto
  from assms(2) have i: "get_prop v ''id'' \<noteq> JUndefined" "get_prop v ''id'' \<noteq> JNull"
    by auto
  from v i show ?thesis by (simp add: id_o_desconocido_def)
qed



text \<open>
  C6: a valid, active operation whose reduction gives \<open>r\<close> (the rounded result, so a
  product that underflows gives zero) is rejected when \<open>r < 0\<close> and approved otherwise,
  and either reason carries the text of \<open>r\<close>; the fifth record of the fixed array is
  rejected with \<open>-40\<close> in its reason, \<open>10\<close> and \<open>-40\<close> being numbers the rounding
  leaves as they are.
\<close>

theorem procesarOperacion_by_sign:
  "(validarOperacion E op = Inr JUndefined \<and> get_prop op ''activa'' = JBool True
      \<and> calcularResultado E op = Inr r \<longrightarrow>
      fst (procesarOperacion E azar op w)
        = (if num_lt r (Fin 0) then
             resultado_op (get_prop op ''id'') ''rechazada''
               (''El resultado ('' @ num_to_string E r @ '') es negativo.'')
           else
             resultado_op (get_prop op ''id'') ''aprobada''
               (''Operaci'' @ [o_ac] @ ''n realizada correctamente. Resultado = ''
                @ num_to_string E r)))
   \<and> (round64 E 10 = Fin 10 \<and> round64 E (- 40) = Fin (- 40) \<longrightarrow>
      fst (procesarOperacion E azar (mk_operacion 5 [N 10, N (- 50)] ''suma'' True) w)
        = resultado_op (N 5) ''rechazada'' ''El resultado (-40) es negativo.'')"
proof
  show "validarOperacion E op = Inr JUndefined \<and> get_prop op ''activa'' = JBool True
      \<and> calcularResultado E op = Inr r \<longrightarrow>
      fst (procesarOperacion E azar op w)
        = (if num_lt r (Fin 0) then
             resultado_op (get_prop op ''id'') ''rechazada''
               (''El resultado ('' @ num_to_string E r @ '') es negativo.'')
           else
             resultado_op (get_prop op ''id'') ''aprobada''
               (''Operaci'' @ [o_ac] @ ''n realizada correctamente. Resultado = ''
                @ num_to_string E r))"
    by (simp add: procesarOperacion_def Let_def)
next
  show "round64 E 10 = Fin 10 \<and> round64 E (- 40) = Fin (- 40) \<longrightarrow>
      fst (procesarOperacion E azar (mk_operacion 5 [N 10, N (- 50)] ''suma'' True) w)
        = resultado_op (N 5) ''rechazada'' ''El resultado (-40) es negativo.''"
    by (simp add: procesarOperacion_def validarOperacion_def calcularResultado_def
        mk_operacion_def num_to_string_def int_str_def digit_char_def Let_def)
qed

theorem procesarOperacion_by_sign_witness:
  "fst (procesarOperacion motor (\<lambda>n. 1 / 2) (mk_operacion 1 [N 10, N 20, N 30] ''suma'' True)
          mundo0)
     = resultado_op (N 1) ''aprobada''
         (''Operaci'' @ [o_ac] @ ''n realizada correctamente. Resultado = 60'')
   \<and> fst (procesarOperacion motor (\<lambda>n. 1 / 2) (mk_operacion 5 [N 10, N (- 50)] ''suma'' True)
            mundo0)
     = resultado_op (N 5) ''rechazada'' ''El resultado (-40) es negativo.''"
proof -
  have v: "validarOperacion motor (mk_operacion 1 [N 10, N 20, N 30] ''suma'' True)
             = Inr JUndefined"
    by (simp add: validarOperacion_def mk_operacion_def)
  have a: "get_prop (mk_operacion 1 [N 10, N 20, N 30] ''suma'' True) ''activa'' = JBool True"
    by (simp add: mk_operacion_def)
  have c: "calcularResultado motor (mk_operacion 1 [N 10, N 20, N 30] ''suma'' True)
             = Inr (Fin 60)"
    by (simp add: calcularResultado_def mk_operacion_def motor_def)
  have x: "round64 motor 10 = Fin 10 \<and> round64 motor (- 40) = Fin (- 40)"
    by (simp add: motor_def)
  from procesarOperacion_by_sign
         [of motor "mk_operacion 1 [N 10, N 20, N 30] ''suma'' True" "Fin 60" "\<lambda>n. 1 / 2" mundo0]
       v a c x
  show ?thesis
    by (simp add: mk_operacion_def num_to_string_def int_str_def digit_char_def)
qed

section \<open>Service requests: validation\<close>

lemma resolve_pending [simp]: "resolve v None = Some v"
  by (simp add: resolve_def)

lemma leer_resultado_op [simp]:
  "leer E (resultado_op i e m) ''estado'' = Inr (JStr e)"
  by (simp add: leer_def resultado_op_def)

text \<open>Every invocation of the classifier takes one latency draw.\<close>

lemma procesarSolicitudConPromesa_draws:
  "sorteos (snd (procesarSolicitudConPromesa E azar x w)) = Suc (sorteos w)"
  by (simp add: procesarSolicitudConPromesa_def esperar_def Let_def split: sum.split)

text \<open>
  C7: a request that passes the seven type checks and has \<open>activo == false\<close> gets, from
  the validator, the rejection whose reason says it is inactive; the loop pushes that
  rejection and leaves the world as it was: no latency is drawn and nothing is waited
  for, whereas every call of \<open>procesarSolicitudConPromesa\<close> takes a draw, so the
  classifier was not called for this record.
\<close>

theorem solicitud_inactiva_short_circuits:
  assumes "comprobar_solicitud E sol = Inr ()"
    and "get_prop sol ''activo'' = JBool False"
  shows "validarSolicitudConCallback E sol callback s
           = callback JNull
               (resultado_op (get_prop sol ''id'') ''rechazada''
                  (''La solicitud est'' @ [a_ac] @ '' inactiva.'')) s
    \<and> paso_solicitud E azar sol st
        = Some (st\<lparr>resultados := resultados st
                     @ [resultado_op (get_prop sol ''id'') ''rechazada''
                          (''La solicitud est'' @ [a_ac] @ '' inactiva.'')]\<rparr>)
    \<and> sorteos (snd (procesarSolicitudConPromesa E azar x w)) = Suc (sorteos w)"
proof (intro conjI)
  show "validarSolicitudConCallback E sol callback s
           = callback JNull
               (resultado_op (get_prop sol ''id'') ''rechazada''
                  (''La solicitud est'' @ [a_ac] @ '' inactiva.'')) s"
    using assms by (simp add: validarSolicitudConCallback_def)
next
  have "validarSolicitudConCallback E sol (\<lambda>err res. resolve res) None
          = Some (resultado_op (get_prop sol ''id'') ''rechazada''
                    (''La solicitud est'' @ [a_ac] @ '' inactiva.''))"
    using assms by (simp add: validarSolicitudConCallback_def)
  then show "paso_solicitud E azar sol st
        = Some (st\<lparr>resultados := resultados st
                     @ [resultado_op (get_prop sol ''id'') ''rechazada''
                          (''La solicitud est'' @ [a_ac] @ '' inactiva.'')]\<rparr>)"
    by (simp add: paso_solicitud_def)
next
  show "sorteos (snd (procesarSolicitudConPromesa E azar x w)) = Suc (sorteos w)"
    by (rule procesarSolicitudConPromesa_draws)
qed

theorem solicitud_inactiva_short_circuits_witness:
  "paso_solicitud motor (\<lambda>n. 1 / 2)
     (mk_solicitud 6 ''Pedro'' ''instalacion'' 1 False (JStr ''2025-12-05''))
     \<lparr>resultados = [], al_final = mundo0\<rparr>
   = Some \<lparr>resultados = [resultado_op (N 6) ''rechazada''
                            (''La solicitud est'' @ [a_ac] @ '' inactiva.'')],
           al_final = mundo0\<rparr>"
proof -
  have c: "comprobar_solicitud motor
             (mk_solicitud 6 ''Pedro'' ''instalacion'' 1 False (JStr ''2025-12-05'')) = Inr ()"
    by (simp add: comprobar_solicitud_def mk_solicitud_def trim_def is_space_def num_gt_def)
  have a: "get_prop (mk_solicitud 6 ''Pedro'' ''instalacion'' 1 False (JStr ''2025-12-05''))
             ''activo'' = JBool False"
    by (simp add: mk_solicitud_def)
  from solicitud_inactiva_short_circuits
         [OF c a, of registrar "[]" "\<lambda>n. 1 / 2" "\<lparr>resultados = [], al_final = mundo0\<rparr>"]
  show ?thesis by (simp add: mk_solicitud_def)
qed

text \<open>
  C8, as stated, fails: the priority check is \<open>typeof prioridad !== "number" ||
  prioridad < 1 || prioridad > 5\<close>, with no test that the number is an integer. A
  request with priority \<open>2.5\<close>, valid otherwise, comes back unchanged.
\<close>

theorem prioridad_fraccionaria_accepted:
  "validarSolicitudConCallback motor
     (JObj [(''id'', N 1), (''cliente'', JStr ''Carlos''), (''tipoServicio'', JStr ''instalacion''),
            (''prioridad'', JNum (Fin (5 / 2))), (''activo'', JBool True),
            (''fechaSolicitud'', JStr ''2025-12-01'')])
     registrar []
   = [(JNull,
       JObj [(''id'', N 1), (''cliente'', JStr ''Carlos''), (''tipoServicio'', JStr ''instalacion''),
             (''prioridad'', JNum (Fin (5 / 2))), (''activo'', JBool True),
             (''fechaSolicitud'', JStr ''2025-12-01'')])]"
  by (simp add: validarSolicitudConCallback_def comprobar_solicitud_def registrar_def
      trim_def is_space_def num_gt_def)

text \<open>
  C8, amended: for every request record that reaches the priority check (the record is
  present, its id is a number, its client a string that is not blank, its service kind a
  string) and whose priority is not a number, or is a number below 1 or above 5,
  validation returns the rejection naming the priority rule rather than the unchanged
  record.
\<close>

theorem prioridad_fuera_de_rango_rejected:
  assumes "\<not> falsy sol"
    and "typeof (get_prop sol ''id'') = ''number''"
    and "typeof (get_prop sol ''cliente'') = ''string''"
    and "trim (the_string (get_prop sol ''cliente'')) \<noteq> []"
    and "typeof (get_prop sol ''tipoServicio'') = ''string''"
    and "typeof (get_prop sol ''prioridad'') \<noteq> ''number''
         \<or> num_lt (the_number (get_prop sol ''prioridad'')) (Fin 1)
         \<or> num_gt (the_number (get_prop sol ''prioridad'')) (Fin 5)"
  shows "validarSolicitudConCallback E sol callback s
           = callback JNull
               (resultado_op (get_prop sol ''id'') ''rechazada''
                  (''Error: Solicitud '' @ js_to_string E (get_prop sol ''id'')
                   @ '': la prioridad debe ser un n'' @ [u_ac] @ ''mero entre 1 y 5.'')) s"
proof -
  have c: "comprobar_solicitud E sol
             = Inl (Error (''Solicitud '' @ js_to_string E (get_prop sol ''id'')
                    @ '': la prioridad debe ser un n'' @ [u_ac] @ ''mero entre 1 y 5.''))"
    using assms by (simp add: comprobar_solicitud_def)
  have i: "id_o_desconocido sol = get_prop sol ''id''"
    using assms(1,2) by (intro id_conocido) simp_all
  show ?thesis
    by (simp add: validarSolicitudConCallback_def c i)
qed

theorem prioridad_fuera_de_rango_rejected_witness:
  "validarSolicitudConCallback motor
     (mk_solicitud 5 ''Marta'' ''soporte'' 7 True (JStr ''2025-12-04'')) registrar []
   = [(JNull, resultado_op (N 5) ''rechazada''
                (''Error: Solicitud 5: la prioridad debe ser un n'' @ [u_ac]
                 @ ''mero entre 1 y 5.''))]"
proof -
  let ?sol = "mk_solicitud 5 ''Marta'' ''soporte'' 7 True (JStr ''2025-12-04'')"
  have h1: "\<not> falsy ?sol" by (simp add: mk_solicitud_def)
  have h2: "typeof (get_prop ?sol ''id'') = ''number''" by (simp add: mk_solicitud_def)
  have h3: "typeof (get_prop ?sol ''cliente'') = ''string''" by (simp add: mk_solicitud_def)
  have h4: "trim (the_string (get_prop ?sol ''cliente'')) \<noteq> []"
    by (simp add: mk_solicitud_def trim_def is_space_def)
  have h5: "typeof (get_prop ?sol ''tipoServicio'') = ''string''" by (simp add: mk_solicitud_def)
  have h6: "typeof (get_prop ?sol ''prioridad'') \<noteq> ''number''
         \<or> num_lt (the_number (get_prop ?sol ''prioridad'')) (Fin 1)
         \<or> num_gt (the_number (get_prop ?sol ''prioridad'')) (Fin 5)"
    by (simp add: mk_solicitud_def num_gt_def)
  from prioridad_fuera_de_rango_rejected [OF h1 h2 h3 h4 h5 h6, of motor registrar "[]"]
  show ?thesis
    by (simp add: mk_solicitud_def registrar_def num_to_string_def int_str_def digit_char_def)
qed

section \<open>Transactions: validation\<close>

text \<open>What the seven checks have established when none of them throws.\<close>

lemma comprobar_transaccion_ok:
  assumes "comprobar_transaccion E t = Inr ()"
  shows "\<not> falsy t"
    and "typeof (get_prop t ''id'') = ''number''"
    and "\<exists>m. get_prop t ''monto'' = JNum (Fin m) \<and> m \<noteq> 0"
    and "typeof (get_prop t ''tipo'') = ''string''"
    and "typeof (get_prop t ''autorizada'') = ''boolean''"
proof -
  from assms show "\<not> falsy t" "typeof (get_prop t ''id'') = ''number''"
    "typeof (get_prop t ''tipo'') = ''string''" "typeof (get_prop t ''autorizada'') = ''boolean''"
    by (simp_all add: comprobar_transaccion_def split: if_splits)
  from assms have n: "typeof (get_prop t ''monto'') = ''number''"
    and f: "isFinite (the_number (get_prop t ''monto''))"
    and z: "get_prop t ''monto'' \<noteq> JNum (Fin 0)"
    by (simp_all add: comprobar_transaccion_def split: if_splits)
  from n obtain x where x: "get_prop t ''monto'' = JNum x"
    using typeof_number by blast
  with f obtain m where "x = Fin m" by (cases x) simp_all
  with x z show "\<exists>m. get_prop t ''monto'' = JNum (Fin m) \<and> m \<noteq> 0" by simp
qed

text \<open>The first definition calls back once, with \<open>null\<close> in the error slot, whatever
  the transaction.\<close>

lemma validarTransaccionConCallback_once:
  "\<exists>res. validarTransaccionConCallback E t registrar llamadas = llamadas @ [(JNull, res)]"
  by (simp add: validarTransaccionConCallback_def registrar_def Let_def split: sum.split)

text \<open>
  C2, as stated, fails: the coherence rule is the eighth rule and is reached only by a
  record that passed the seven before it, among them \<open>monto !== 0\<close>. The sixth record
  of the fixed array has kind \<open>"egreso"\<close> and amount \<open>0\<close>, and is invalid with the
  reason of the amount check.
\<close>

theorem egreso_monto_cero_structural_reason:
  "validarTransaccionConCallback motor
     (mk_transaccion 6 ''Santi'' 0 ''egreso'' True (JStr ''2025-12-05'')) registrar []
   = [(JNull, resultado_tx (N 6) ''invalida''
                (''Error: Transacci'' @ [o_ac] @ ''n 6: el monto debe ser un n'' @ [u_ac]
                 @ ''mero finito distinto de 0.''))]"
  by (simp add: validarTransaccionConCallback_def comprobar_transaccion_def mk_transaccion_def
      registrar_def resultado_tx_def id_o_desconocido_def trim_def is_space_def
      num_to_string_def int_str_def digit_char_def)

text \<open>
  C2, amended: for every transaction record that passes the seven structural checks (so
  its amount is a finite number other than 0) and has amount \<open>< 0\<close> and kind
  \<open>"ingreso"\<close> or \<open>"egreso"\<close> in any letter case, validation classifies it as invalid
  with the coherence reason of its kind; a record that fails a structural check is
  invalid with the message of the first check it fails, after \<open>"Error: "\<close>.
\<close>

theorem monto_incoherente_reason:
  "(comprobar_transaccion E t = Inr () \<longrightarrow> (\<exists>m. get_prop t ''monto'' = JNum (Fin m) \<and> m \<noteq> 0))
   \<and> (comprobar_transaccion E t = Inr ()
        \<and> toLowerCase (the_string (get_prop t ''tipo'')) = ''ingreso''
        \<and> num_lt (the_number (get_prop t ''monto'')) (Fin 0) \<longrightarrow>
        validarTransaccionConCallback E t callback s
          = callback JNull
              (resultado_tx (get_prop t ''id'') ''invalida''
                 ''Ingreso con monto <= 0 es incoherente.'') s)
   \<and> (comprobar_transaccion E t = Inr ()
        \<and> toLowerCase (the_string (get_prop t ''tipo'')) = ''egreso''
        \<and> num_lt (the_number (get_prop t ''monto'')) (Fin 0) \<longrightarrow>
        validarTransaccionConCallback E t callback s
          = callback JNull
              (resultado_tx (get_prop t ''id'') ''invalida''
                 ''Egreso con monto <= 0 es incoherente.'') s)
   \<and> (\<forall>err. comprobar_transaccion E t = Inl err \<longrightarrow>
        validarTransaccionConCallback E t callback s
          = callback JNull
              (resultado_tx (id_o_desconocido t) ''invalida'' (''Error: '' @ message err)) s)"
proof (intro conjI)
  show "comprobar_transaccion E t = Inr () \<longrightarrow> (\<exists>m. get_prop t ''monto'' = JNum (Fin m) \<and> m \<noteq> 0)"
    using comprobar_transaccion_ok(3) by blast
next
  show "comprobar_transaccion E t = Inr ()
        \<and> toLowerCase (the_string (get_prop t ''tipo'')) = ''ingreso''
        \<and> num_lt (the_number (get_prop t ''monto'')) (Fin 0) \<longrightarrow>
        validarTransaccionConCallback E t callback s
          = callback JNull
              (resultado_tx (get_prop t ''id'') ''invalida''
                 ''Ingreso con monto <= 0 es incoherente.'') s"
  proof
    assume h: "comprobar_transaccion E t = Inr ()
        \<and> toLowerCase (the_string (get_prop t ''tipo'')) = ''ingreso''
        \<and> num_lt (the_number (get_prop t ''monto'')) (Fin 0)"
    then obtain k where k: "get_prop t ''tipo'' = JStr k"
      using comprobar_transaccion_ok(4) typeof_string by blast
    from h obtain m where m: "get_prop t ''monto'' = JNum (Fin m)"
      using comprobar_transaccion_ok(3) by blast
    from h k m show "validarTransaccionConCallback E t callback s
          = callback JNull
              (resultado_tx (get_prop t ''id'') ''invalida''
                 ''Ingreso con monto <= 0 es incoherente.'') s"
      by (simp add: validarTransaccionConCallback_def Let_def)
  qed
next
  show "comprobar_transaccion E t = Inr ()
        \<and> toLowerCase (the_string (get_prop t ''tipo'')) = ''egreso''
        \<and> num_lt (the_number (get_prop t ''monto'')) (Fin 0) \<longrightarrow>
        validarTransaccionConCallback E t callback s
          = callback JNull
              (resultado_tx (get_prop t ''id'') ''invalida''
                 ''Egreso con monto <= 0 es incoherente.'') s"
  proof
    assume h: "comprobar_transaccion E t = Inr ()
        \<and> toLowerCase (the_string (get_prop t ''tipo'')) = ''egreso''
        \<and> num_lt (the_number (get_prop t ''monto'')) (Fin 0)"
    then obtain k where k: "get_prop t ''tipo'' = JStr k"
      using comprobar_transaccion_ok(4) typeof_string by blast
    from h obtain m where m: "get_prop t ''monto'' = JNum (Fin m)"
      using comprobar_transaccion_ok(3) by blast
    from h k m show "validarTransaccionConCallback E t callback s
          = callback JNull
              (resultado_tx (get_prop t ''id'') ''invalida''
                 ''Egreso con monto <= 0 es incoherente.'') s"
      by (simp add: validarTransaccionConCallback_def Let_def)
  qed
next
  show "\<forall>err. comprobar_transaccion E t = Inl err \<longrightarrow>
        validarTransaccionConCallback E t callback s
          = callback JNull
              (resultado_tx (id_o_desconocido t) ''invalida'' (''Error: '' @ message err)) s"
    by (simp add: validarTransaccionConCallback_def)
qed

theorem monto_incoherente_reason_witness:
  "validarTransaccionConCallback motor
     (mk_transaccion 3 ''Juan'' (- 200) ''ingreso'' True (JStr ''2025-12-02'')) registrar []
   = [(JNull, resultado_tx (N 3) ''invalida'' ''Ingreso con monto <= 0 es incoherente.'')]"
proof -
  let ?t = "mk_transaccion 3 ''Juan'' (- 200) ''ingreso'' True (JStr ''2025-12-02'')"
  have c: "comprobar_transaccion motor ?t = Inr ()"
    by (simp add: comprobar_transaccion_def mk_transaccion_def trim_def is_space_def)
  have k: "toLowerCase (the_string (get_prop ?t ''tipo'')) = ''ingreso''"
    by (simp add: mk_transaccion_def toLowerCase_def lower_char_def)
  have m: "num_lt (the_number (get_prop ?t ''monto'')) (Fin 0)"
    by (simp add: mk_transaccion_def)
  from monto_incoherente_reason [of motor ?t registrar "[]"] c k m
  show ?thesis by (simp add: mk_transaccion_def registrar_def)
qed

text \<open>
  C3 holds of the first definition of \<open>validarTransaccionConCallback\<close> and fails of the
  second: a transaction that passes every rule is handed to the callback by the first,
  while the second, whose \<open>return callback(null, transaccion)\<close> is commented out,
  returns without calling back at all.
\<close>

theorem validarTransaccionConCallback_modulo_no_call:
  assumes "comprobar_transaccion E t = Inr ()"
    and "\<not> num_le (the_number (get_prop t ''monto'')) (Fin 0)"
  shows "validarTransaccionConCallback_modulo E t callback s = s
    \<and> validarTransaccionConCallback E t callback s = callback JNull t s"
  using assms
  by (simp add: validarTransaccionConCallback_modulo_def validarTransaccionConCallback_def
      Let_def)

theorem validarTransaccionConCallback_modulo_no_call_witness:
  "validarTransaccionConCallback_modulo motor
     (mk_transaccion 1 ''Sebas'' 500 ''ingreso'' True (JStr ''2025-12-01'')) registrar [] = []
   \<and> validarTransaccionConCallback motor
     (mk_transaccion 1 ''Sebas'' 500 ''ingreso'' True (JStr ''2025-12-01'')) registrar []
     = [(JNull, mk_transaccion 1 ''Sebas'' 500 ''ingreso'' True (JStr ''2025-12-01''))]"
proof -
  let ?t = "mk_transaccion 1 ''Sebas'' 500 ''ingreso'' True (JStr ''2025-12-01'')"
  have c: "comprobar_transaccion motor ?t = Inr ()"
    by (simp add: comprobar_transaccion_def mk_transaccion_def trim_def is_space_def)
  have m: "\<not> num_le (the_number (get_prop ?t ''monto'')) (Fin 0)"
    by (simp add: mk_transaccion_def)
  from validarTransaccionConCallback_modulo_no_call [OF c m, of registrar "[]"]
  show ?thesis by (simp add: registrar_def)
qed

section \<open>The three loops\<close>

text \<open>Counting two disjoint states that cover a list.\<close>

lemma contar_dos_estados:
  assumes "\<forall>r \<in> set rs. get_prop r ''estado'' = JStr ''aprobada''
                         \<or> get_prop r ''estado'' = JStr ''rechazada''"
  shows "length (filter (estado_es ''aprobada'') rs) + length (filter (estado_es ''rechazada'') rs)
           = length rs"
  using assms by (induction rs) (auto simp add: estado_es_def)

lemma get_prop_resultado_op [simp]:
  "get_prop (resultado_op i e m) ''estado'' = JStr e"
  by (simp add: resultado_op_def)

subsection \<open>Operations\<close>

text \<open>The result of \<open>procesarOperacion\<close> without the world: what the latency cannot
  change.\<close>

lemma procesarOperacion_sin_mundo:
  "fst (procesarOperacion E azar op w) = fst (procesarOperacion E azar' op w')"
  by (simp add: procesarOperacion_def Let_def split: sum.split)

lemma procesarOperacion_estado:
  "get_prop (fst (procesarOperacion E azar op w)) ''estado'' = JStr ''aprobada''
   \<or> get_prop (fst (procesarOperacion E azar op w)) ''estado'' = JStr ''rechazada''"
  by (simp add: procesarOperacion_def Let_def split: sum.split)

lemma bucle_operaciones_resultados:
  "resultados (bucle_operaciones E azar ops st)
     = resultados st @ map (\<lambda>op. fst (procesarOperacion E (\<lambda>n. 0) op mundo0)) ops"
proof (induction ops arbitrary: st)
  case Nil
  show ?case by simp
next
  case (Cons op ops)
  obtain r w' where p: "procesarOperacion E azar op (al_final st) = (r, w')"
    by (cases "procesarOperacion E azar op (al_final st)")
  have "r = fst (procesarOperacion E azar op (al_final st))" by (simp add: p)
  then have r: "r = fst (procesarOperacion E (\<lambda>n. 0) op mundo0)"
    using procesarOperacion_sin_mundo by simp
  show ?case by (simp add: p Cons.IH r)
qed

subsection \<open>Requests\<close>

text \<open>The validator always settles the promise of the loop, with a value whose fields
  can be read.\<close>

lemma validarSolicitud_settles:
  "\<exists>v. validarSolicitudConCallback E sol (\<lambda>err res. resolve res) None = Some v
       \<and> v \<noteq> JUndefined \<and> v \<noteq> JNull"
proof (cases "comprobar_solicitud E sol")
  case (Inl err)
  then show ?thesis by (simp add: validarSolicitudConCallback_def resultado_op_def)
next
  case (Inr u)
  then have "\<not> falsy sol" by (simp add: comprobar_solicitud_def split: if_splits)
  then have "sol \<noteq> JUndefined \<and> sol \<noteq> JNull" by auto
  with Inr show ?thesis by (simp add: validarSolicitudConCallback_def resultado_op_def)
qed

lemma procesarSolicitud_sin_mundo:
  "fst (procesarSolicitudConPromesa E azar x w) = fst (procesarSolicitudConPromesa E azar' x w')"
  by (simp add: procesarSolicitudConPromesa_def Let_def split: sum.split)

lemma procesarSolicitud_estado:
  "get_prop (fst (procesarSolicitudConPromesa E azar x w)) ''estado'' = JStr ''aprobada''
   \<or> get_prop (fst (procesarSolicitudConPromesa E azar x w)) ''estado'' = JStr ''rechazada''"
  by (simp add: procesarSolicitudConPromesa_def Let_def split: sum.split)

text \<open>One iteration pushes one result, approved or rejected, that depends neither on
  the draws nor on the state.\<close>

lemma paso_solicitud_pushes:
  "\<exists>r. (get_prop r ''estado'' = JStr ''aprobada'' \<or> get_prop r ''estado'' = JStr ''rechazada'')
       \<and> (\<forall>azar st. \<exists>w'. paso_solicitud E azar sol st
                            = Some \<lparr>resultados = resultados st @ [r], al_final = w'\<rparr>)"
proof -
  obtain v where v: "validarSolicitudConCallback E sol (\<lambda>err res. resolve res) None = Some v"
    and nn: "v \<noteq> JUndefined" "v \<noteq> JNull"
    using validarSolicitud_settles by blast
  from nn have l: "leer E v ''estado'' = Inr (get_prop v ''estado'')"
    by (simp add: leer_def)
  show ?thesis
  proof (cases "get_prop v ''estado'' = JStr ''rechazada''")
    case True
    have "\<exists>w'. paso_solicitud E azar sol st
                 = Some \<lparr>resultados = resultados st @ [v], al_final = w'\<rparr>" for azar st
      by (rule exI [of _ "al_final st"]) (simp add: paso_solicitud_def v l True)
    with True show ?thesis by blast
  next
    case False
    let ?r = "fst (procesarSolicitudConPromesa E (\<lambda>n. 0) v mundo0)"
    have "\<exists>w'. paso_solicitud E azar sol st
                 = Some \<lparr>resultados = resultados st @ [?r], al_final = w'\<rparr>" for azar st
    proof -
      obtain r w' where p: "procesarSolicitudConPromesa E azar v (al_final st) = (r, w')"
        by (cases "procesarSolicitudConPromesa E azar v (al_final st)")
      have "r = fst (procesarSolicitudConPromesa E azar v (al_final st))" by (simp add: p)
      then have "r = ?r" using procesarSolicitud_sin_mundo by simp
      then show ?thesis by (simp add: paso_solicitud_def v l False p)
    qed
    with procesarSolicitud_estado [of E "\<lambda>n. 0" v mundo0] show ?thesis by blast
  qed
qed

lemma bucle_solicitudes_pushes:
  "\<exists>rs. length rs = length sols
       \<and> (\<forall>r \<in> set rs. get_prop r ''estado'' = JStr ''aprobada''
                        \<or> get_prop r ''estado'' = JStr ''rechazada'')
       \<and> (\<forall>azar st. \<exists>w'. bucle_solicitudes E azar sols st
                            = Some \<lparr>resultados = resultados st @ rs, al_final = w'\<rparr>)"
proof (induction sols)
  case Nil
  have "\<exists>w'. bucle_solicitudes E azar [] st
               = Some \<lparr>resultados = resultados st @ [], al_final = w'\<rparr>" for azar st
    by (rule exI [of _ "al_final st"]) simp
  then show ?case by (intro exI [of _ "[]"]) simp
next
  case (Cons sol sols)
  from Cons.IH obtain rs where rs: "length rs = length sols"
    "\<forall>r \<in> set rs. get_prop r ''estado'' = JStr ''aprobada''
                        \<or> get_prop r ''estado'' = JStr ''rechazada''"
    "\<forall>azar st. \<exists>w'. bucle_solicitudes E azar sols st
                            = Some \<lparr>resultados = resultados st @ rs, al_final = w'\<rparr>"
    by blast
  obtain r where r: "get_prop r ''estado'' = JStr ''aprobada''
                      \<or> get_prop r ''estado'' = JStr ''rechazada''"
    "\<forall>azar st. \<exists>w'. paso_solicitud E azar sol st
                            = Some \<lparr>resultados = resultados st @ [r], al_final = w'\<rparr>"
    using paso_solicitud_pushes by blast
  have "\<exists>w'. bucle_solicitudes E azar (sol # sols) st
                = Some \<lparr>resultados = resultados st @ (r # rs), al_final = w'\<rparr>" for azar st
  proof -
    from r(2) obtain w1 where w1: "paso_solicitud E azar sol st
                            = Some \<lparr>resultados = resultados st @ [r], al_final = w1\<rparr>"
      by blast
    from rs(3) obtain w2 where
      "bucle_solicitudes E azar sols \<lparr>resultados = resultados st @ [r], al_final = w1\<rparr>
         = Some \<lparr>resultados = resultados \<lparr>resultados = resultados st @ [r], al_final = w1\<rparr> @ rs,
                 al_final = w2\<rparr>"
      by blast
    with w1 show ?thesis by simp
  qed
  with rs(1,2) r(1) show ?case
    by (intro exI [of _ "r # rs"]) simp
qed

subsection \<open>Transactions\<close>

lemma validarTransaccion_settles:
  "\<exists>v. validarTransaccionConCallback E t (\<lambda>err res. resolve res) None = Some v
       \<and> v \<noteq> JUndefined \<and> v \<noteq> JNull"
proof (cases "comprobar_transaccion E t")
  case (Inl err)
  then show ?thesis by (simp add: validarTransaccionConCallback_def resultado_tx_def)
next
  case (Inr u)
  then have "\<not> falsy t" by (simp add: comprobar_transaccion_def split: if_splits)
  then have "t \<noteq> JUndefined \<and> t \<noteq> JNull" by auto
  with Inr show ?thesis
    by (simp add: validarTransaccionConCallback_def resultado_tx_def Let_def)
qed

text \<open>A record that the loop takes as validated is the input itself; it passed the
  seven checks and the coherence rule.\<close>

lemma validada_es_la_entrada:
  assumes "validarTransaccionConCallback E t (\<lambda>err res. resolve res) None = Some v"
    and "get_prop v ''clasificacion'' \<noteq> JStr ''invalida''"
  shows "v = t" and "comprobar_transaccion E t = Inr ()"
    and "toLowerCase (js_to_string E (get_prop t ''tipo'')) = ''ingreso''
         \<or> toLowerCase (js_to_string E (get_prop t ''tipo'')) = ''egreso''
         \<Longrightarrow> \<not> num_le (the_number (get_prop t ''monto'')) (Fin 0)"
proof -
  have c: "comprobar_transaccion E t = Inr ()"
  proof (cases "comprobar_transaccion E t")
    case (Inl err)
    with assms show ?thesis
      by (auto simp add: validarTransaccionConCallback_def resultado_tx_def)
  next
    case (Inr u)
    then show ?thesis by simp
  qed
  then show "comprobar_transaccion E t = Inr ()" .
  from assms c show "v = t"
    by (auto simp add: validarTransaccionConCallback_def resultado_tx_def Let_def
        split: if_splits)
  from assms c show "toLowerCase (js_to_string E (get_prop t ''tipo'')) = ''ingreso''
         \<or> toLowerCase (js_to_string E (get_prop t ''tipo'')) = ''egreso''
         \<Longrightarrow> \<not> num_le (the_number (get_prop t ''monto'')) (Fin 0)"
    by (auto simp add: validarTransaccionConCallback_def resultado_tx_def Let_def
        split: if_splits)
qed

lemma procesarTransaccion_sin_mundo:
  "fst (procesarTransaccionConPromesa E azar x w)
     = fst (procesarTransaccionConPromesa E azar' x w')"
  by (simp add: procesarTransaccionConPromesa_def Let_def split: sum.split)

text \<open>Only a kind that lowers to \<open>"ingreso"\<close> or \<open>"egreso"\<close> is classified
  \<open>"valida"\<close>, and the result carries that lowered kind and the amount of the record.\<close>

lemma procesarTransaccion_valida:
  assumes "x \<noteq> JUndefined" and "x \<noteq> JNull"
    and "get_prop (fst (procesarTransaccionConPromesa E azar x w)) ''clasificacion''
           = JStr ''valida''"
  shows "(toLowerCase (js_to_string E (get_prop x ''tipo'')) = ''ingreso''
          \<or> toLowerCase (js_to_string E (get_prop x ''tipo'')) = ''egreso'')
    \<and> get_prop (fst (procesarTransaccionConPromesa E azar x w)) ''tipo''
        = JStr (toLowerCase (js_to_string E (get_prop x ''tipo'')))
    \<and> get_prop (fst (procesarTransaccionConPromesa E azar x w)) ''monto''
        = get_prop x ''monto''"
  using assms
  by (auto simp add: procesarTransaccionConPromesa_def leer_def resultado_tx_def
      resultado_tx_monto_def Let_def split: if_splits)

lemma valida_monto_positivo:
  assumes "validarTransaccionConCallback E t (\<lambda>err res. resolve res) None = Some v"
    and "get_prop v ''clasificacion'' \<noteq> JStr ''invalida''"
    and "get_prop (fst (procesarTransaccionConPromesa E azar v w)) ''clasificacion''
           = JStr ''valida''"
  shows "\<exists>m. 0 < m
           \<and> get_prop (fst (procesarTransaccionConPromesa E azar v w)) ''monto'' = JNum (Fin m)
           \<and> (get_prop (fst (procesarTransaccionConPromesa E azar v w)) ''tipo'' = JStr ''ingreso''
              \<or> get_prop (fst (procesarTransaccionConPromesa E azar v w)) ''tipo''
                  = JStr ''egreso'')"
proof -
  note e = validada_es_la_entrada [OF assms(1,2)]
  from e(2) have "\<not> falsy t" by (rule comprobar_transaccion_ok(1))
  then have nn: "v \<noteq> JUndefined" "v \<noteq> JNull" using e(1) by auto
  note p = procesarTransaccion_valida [OF nn assms(3)]
  from p e(1) have k: "toLowerCase (js_to_string E (get_prop t ''tipo'')) = ''ingreso''
         \<or> toLowerCase (js_to_string E (get_prop t ''tipo'')) = ''egreso''" by simp
  from comprobar_transaccion_ok(3) [OF e(2)] obtain m
    where m: "get_prop t ''monto'' = JNum (Fin m)" "m \<noteq> 0" by blast
  from e(3) [OF k] m have "0 < m" by simp
  with p m e(1) k show ?thesis by auto
qed

lemma clasificadas_otros_campos [simp]:
  "clasificadas (st\<lparr>resultados := rs\<rparr>) = clasificadas st"
  "clasificadas (st\<lparr>al_final := w\<rparr>) = clasificadas st"
  by (simp_all add: clasificadas_def)

lemma acumular_una:
  "clasificadas (acumular E p st) = Suc (clasificadas st)"
  "resultados (acumular E p st) = resultados st"
  by (simp_all add: acumular_def clasificadas_def Let_def)

text \<open>One iteration pushes one result that depends neither on the draws nor on the
  state, and files it in exactly one of the three arrays.\<close>

lemma paso_transaccion_pushes:
  "\<exists>r. \<forall>azar st. \<exists>st'. paso_transaccion E azar t st = Some st'
          \<and> resultados st' = resultados st @ [r]
          \<and> clasificadas st' = Suc (clasificadas st)"
proof -
  obtain v where v: "validarTransaccionConCallback E t (\<lambda>err res. resolve res) None = Some v"
    and nn: "v \<noteq> JUndefined" "v \<noteq> JNull"
    using validarTransaccion_settles by blast
  from nn have l: "leer E v ''clasificacion'' = Inr (get_prop v ''clasificacion'')"
    by (simp add: leer_def)
  show ?thesis
  proof (cases "get_prop v ''clasificacion'' = JStr ''invalida''")
    case True
    have "\<exists>st'. paso_transaccion E azar t st = Some st'
          \<and> resultados st' = resultados st @ [v]
          \<and> clasificadas st' = Suc (clasificadas st)" for azar st
      by (simp add: paso_transaccion_def v l True clasificadas_def)
    then show ?thesis by blast
  next
    case False
    let ?r = "fst (procesarTransaccionConPromesa E (\<lambda>n. 0) v mundo0)"
    have "\<exists>st'. paso_transaccion E azar t st = Some st'
          \<and> resultados st' = resultados st @ [?r]
          \<and> clasificadas st' = Suc (clasificadas st)" for azar st
    proof -
      obtain r w' where p: "procesarTransaccionConPromesa E azar v (al_final st) = (r, w')"
        by (cases "procesarTransaccionConPromesa E azar v (al_final st)")
      have "r = fst (procesarTransaccionConPromesa E azar v (al_final st))" by (simp add: p)
      then have "r = ?r" using procesarTransaccion_sin_mundo by simp
      then show ?thesis
        by (simp add: paso_transaccion_def v l False p acumular_una)
    qed
    then show ?thesis by blast
  qed
qed

lemma bucle_transacciones_pushes:
  "\<exists>rs. length rs = length ts
       \<and> (\<forall>azar st. \<exists>st'. bucle_transacciones E azar ts st = Some st'
             \<and> resultados st' = resultados st @ rs
             \<and> clasificadas st' = clasificadas st + length ts)"
proof (induction ts)
  case Nil
  show ?case by (intro exI [of _ "[]"]) simp
next
  case (Cons t ts)
  from Cons.IH obtain rs where rs: "length rs = length ts"
    "\<forall>azar st. \<exists>st'. bucle_transacciones E azar ts st = Some st'
             \<and> resultados st' = resultados st @ rs
             \<and> clasificadas st' = clasificadas st + length ts"
    by blast
  obtain r where r: "\<forall>azar st. \<exists>st'. paso_transaccion E azar t st = Some st'
          \<and> resultados st' = resultados st @ [r]
          \<and> clasificadas st' = Suc (clasificadas st)"
    using paso_transaccion_pushes by blast
  have "\<exists>st'. bucle_transacciones E azar (t # ts) st = Some st'
             \<and> resultados st' = resultados st @ (r # rs)
             \<and> clasificadas st' = clasificadas st + length (t # ts)" for azar st
  proof -
    from r obtain s1 where s1: "paso_transaccion E azar t st = Some s1"
      "resultados s1 = resultados st @ [r]" "clasificadas s1 = Suc (clasificadas st)"
      by blast
    from rs(2) obtain s2 where "bucle_transacciones E azar ts s1 = Some s2"
      "resultados s2 = resultados s1 @ rs" "clasificadas s2 = clasificadas s1 + length ts"
      by blast
    with s1 show ?thesis by simp
  qed
  with rs(1) show ?case
    by (intro exI [of _ "r # rs"]) simp
qed

subsection \<open>The summaries\<close>

text \<open>The three loops over any array: one result per record, each counted once.\<close>

lemma ejecutarOperaciones_con_counts:
  "aprobadas (ejecutarOperaciones_con E azar ops w) + rechazadas (ejecutarOperaciones_con E azar ops w)
     = length (resultados (ejecutarOperaciones_con E azar ops w))
   \<and> length (resultados (ejecutarOperaciones_con E azar ops w)) = length ops"
proof -
  let ?rs = "map (\<lambda>op. fst (procesarOperacion E (\<lambda>n. 0) op mundo0)) ops"
  have rs: "resultados (bucle_operaciones E azar ops \<lparr>resultados = [], al_final = w\<rparr>) = ?rs"
    by (simp add: bucle_operaciones_resultados)
  have "\<forall>r \<in> set ?rs. get_prop r ''estado'' = JStr ''aprobada''
                        \<or> get_prop r ''estado'' = JStr ''rechazada''"
    using procesarOperacion_estado by auto
  then have "length (filter (estado_es ''aprobada'') ?rs)
             + length (filter (estado_es ''rechazada'') ?rs) = length ?rs"
    by (rule contar_dos_estados)
  then show ?thesis
    by (simp add: ejecutarOperaciones_con_def resumir_def rs)
qed

lemma ejecutarSolicitudes_con_counts:
  "\<exists>r. ejecutarSolicitudes_con E azar sols w = Some r
       \<and> aprobadas r + rechazadas r = length (resultados r)
       \<and> length (resultados r) = length sols"
proof -
  obtain rs where rs: "length rs = length sols"
    "\<forall>r \<in> set rs. get_prop r ''estado'' = JStr ''aprobada''
                    \<or> get_prop r ''estado'' = JStr ''rechazada''"
    "\<forall>azar st. \<exists>w'. bucle_solicitudes E azar sols st
                        = Some \<lparr>resultados = resultados st @ rs, al_final = w'\<rparr>"
    using bucle_solicitudes_pushes by blast
  from rs(3) obtain w' where
    b: "bucle_solicitudes E azar sols \<lparr>resultados = [], al_final = w\<rparr>
          = Some \<lparr>resultados = resultados \<lparr>resultados = [], al_final = w\<rparr> @ rs, al_final = w'\<rparr>"
    by blast
  from contar_dos_estados [OF rs(2)] rs(1) b show ?thesis
    by (simp add: ejecutarSolicitudes_con_def resumir_def)
qed

lemma ejecutarAnalisis_con_counts:
  "\<exists>a. ejecutarAnalisis_con E azar ts w = Some a
       \<and> length (validas a) + length (sospechosas a) + length (invalidas a)
           = length (resultados a)
       \<and> length (resultados a) = length ts"
proof -
  obtain rs where rs: "length rs = length ts"
    "\<forall>azar st. \<exists>st'. bucle_transacciones E azar ts st = Some st'
             \<and> resultados st' = resultados st @ rs
             \<and> clasificadas st' = clasificadas st + length ts"
    using bucle_transacciones_pushes by blast
  from rs(2) obtain a where a: "bucle_transacciones E azar ts (inicio_analisis w) = Some a"
    "resultados a = resultados (inicio_analisis w) @ rs"
    "clasificadas a = clasificadas (inicio_analisis w) + length ts"
    by blast
  from a rs(1) show ?thesis
    by (simp add: ejecutarAnalisis_con_def inicio_analisis_def clasificadas_def)
qed

text \<open>
  C4: every run of the three orchestrators over its fixed array ends, and its summary
  counts add up to the number of results, which is the length of the array: approved
  plus rejected for operations and requests; valid plus suspicious plus invalid for
  transactions.
\<close>

theorem summary_counts_partition:
  "aprobadas (ejecutarOperaciones E azar w) + rechazadas (ejecutarOperaciones E azar w)
     = length (resultados (ejecutarOperaciones E azar w))
   \<and> length (resultados (ejecutarOperaciones E azar w)) = length arrObjeto
   \<and> (\<exists>r. ejecutarSolicitudes E azar ahora w = Some r
          \<and> aprobadas r + rechazadas r = length (resultados r)
          \<and> length (resultados r) = length (arrSolicitudes ahora))
   \<and> (\<exists>a. ejecutarAnalisis E azar ahora w = Some a
          \<and> length (validas a) + length (sospechosas a) + length (invalidas a)
              = length (resultados a)
          \<and> length (resultados a) = length (arrTransacciones ahora))"
  using ejecutarOperaciones_con_counts [of E azar arrObjeto w]
    ejecutarSolicitudes_con_counts [of E azar "arrSolicitudes ahora" w]
    ejecutarAnalisis_con_counts [of E azar "arrTransacciones ahora" w]
  by (simp add: ejecutarOperaciones_def ejecutarSolicitudes_def ejecutarAnalisis_def)

theorem summary_counts_partition_witness:
  "aprobadas (ejecutarOperaciones motor (\<lambda>n. 1 / 2) mundo0) = 2
   \<and> rechazadas (ejecutarOperaciones motor (\<lambda>n. 1 / 2) mundo0) = 5
   \<and> length (resultados (ejecutarOperaciones motor (\<lambda>n. 1 / 2) mundo0)) = 7
   \<and> (\<exists>r. ejecutarSolicitudes motor (\<lambda>n. 1 / 2) 0 mundo0 = Some r
          \<and> aprobadas r + rechazadas r = 6 \<and> length (resultados r) = 6)
   \<and> (\<exists>a. ejecutarAnalisis motor (\<lambda>n. 1 / 2) 0 mundo0 = Some a
          \<and> length (validas a) + length (sospechosas a) + length (invalidas a) = 7
          \<and> length (resultados a) = 7)"
proof -
  have a: "aprobadas (ejecutarOperaciones motor (\<lambda>n. 1 / 2) mundo0) = 2"
    by (simp add: evaluar)
  from summary_counts_partition [of motor "\<lambda>n. 1 / 2" mundo0 0] a
  show ?thesis
    by (auto simp add: arrObjeto_def arrSolicitudes_def arrTransacciones_def)
qed

text \<open>The results of the three loops over any array do not depend on the draws or on
  the world the run starts in.\<close>

lemma ejecutarOperaciones_con_sin_azar:
  "resultados (ejecutarOperaciones_con E azar ops w)
     = resultados (ejecutarOperaciones_con E azar' ops w')"
  by (simp add: ejecutarOperaciones_con_def resumir_def bucle_operaciones_resultados)

lemma ejecutarSolicitudes_con_sin_azar:
  "\<exists>r r'. ejecutarSolicitudes_con E azar sols w = Some r
         \<and> ejecutarSolicitudes_con E azar' sols w' = Some r'
         \<and> resultados r = resultados r' \<and> aprobadas r = aprobadas r'
         \<and> rechazadas r = rechazadas r'"
proof -
  obtain rs where rs:
    "\<forall>azar st. \<exists>w'. bucle_solicitudes E azar sols st
                        = Some \<lparr>resultados = resultados st @ rs, al_final = w'\<rparr>"
    using bucle_solicitudes_pushes by blast
  from rs obtain w1 where
    b1: "bucle_solicitudes E azar sols \<lparr>resultados = [], al_final = w\<rparr>
          = Some \<lparr>resultados = resultados \<lparr>resultados = [], al_final = w\<rparr> @ rs, al_final = w1\<rparr>"
    by blast
  from rs obtain w2 where
    b2: "bucle_solicitudes E azar' sols \<lparr>resultados = [], al_final = w'\<rparr>
          = Some \<lparr>resultados = resultados \<lparr>resultados = [], al_final = w'\<rparr> @ rs, al_final = w2\<rparr>"
    by blast
  from b1 b2 show ?thesis
    by (simp add: ejecutarSolicitudes_con_def resumir_def)
qed

lemma ejecutarAnalisis_con_sin_azar:
  "\<exists>a a'. ejecutarAnalisis_con E azar ts w = Some a
         \<and> ejecutarAnalisis_con E azar' ts w' = Some a'
         \<and> resultados a = resultados a'"
proof -
  obtain rs where rs:
    "\<forall>azar st. \<exists>st'. bucle_transacciones E azar ts st = Some st'
             \<and> resultados st' = resultados st @ rs
             \<and> clasificadas st' = clasificadas st + length ts"
    using bucle_transacciones_pushes by blast
  from rs obtain a where a: "bucle_transacciones E azar ts (inicio_analisis w) = Some a"
    "resultados a = resultados (inicio_analisis w) @ rs"
    by blast
  from rs obtain a' where a': "bucle_transacciones E azar' ts (inicio_analisis w') = Some a'"
    "resultados a' = resultados (inicio_analisis w') @ rs"
    by blast
  from a a' show ?thesis
    by (simp add: ejecutarAnalisis_con_def inicio_analisis_def)
qed

text \<open>
  C9: two runs over the same fixed array, with any two sequences of latency draws and
  any two starting clocks, both end and give every record the same result: the same
  id, outcome and reason, in the same order.
\<close>

theorem resultados_independent_of_latency:
  "resultados (ejecutarOperaciones E azar w) = resultados (ejecutarOperaciones E azar' w')
   \<and> (\<exists>r r'. ejecutarSolicitudes E azar ahora w = Some r
            \<and> ejecutarSolicitudes E azar' ahora w' = Some r'
            \<and> resultados r = resultados r')
   \<and> (\<exists>a a'. ejecutarAnalisis E azar ahora w = Some a
            \<and> ejecutarAnalisis E azar' ahora w' = Some a'
            \<and> resultados a = resultados a')"
proof (intro conjI)
  show "resultados (ejecutarOperaciones E azar w) = resultados (ejecutarOperaciones E azar' w')"
    unfolding ejecutarOperaciones_def by (rule ejecutarOperaciones_con_sin_azar)
next
  show "\<exists>r r'. ejecutarSolicitudes E azar ahora w = Some r
            \<and> ejecutarSolicitudes E azar' ahora w' = Some r'
            \<and> resultados r = resultados r'"
    unfolding ejecutarSolicitudes_def
    using ejecutarSolicitudes_con_sin_azar [of E azar "arrSolicitudes ahora" w azar' w']
    by blast
next
  show "\<exists>a a'. ejecutarAnalisis E azar ahora w = Some a
            \<and> ejecutarAnalisis E azar' ahora w' = Some a'
            \<and> resultados a = resultados a'"
    unfolding ejecutarAnalisis_def
    by (rule ejecutarAnalisis_con_sin_azar)
qed

theorem resultados_independent_of_latency_witness:
  "resultados (ejecutarOperaciones motor (\<lambda>n. 0) mundo0)
     = resultados (ejecutarOperaciones motor (\<lambda>n. 3 / 4) mundo0)
   \<and> reloj (al_final (ejecutarOperaciones motor (\<lambda>n. 0) mundo0)) = 1200
   \<and> reloj (al_final (ejecutarOperaciones motor (\<lambda>n. 3 / 4) mundo0)) = 6300"
proof -
  have r0: "reloj (al_final (ejecutarOperaciones motor (\<lambda>n. 0) mundo0)) = 1200"
    by (simp add: evaluar)
  have r1: "reloj (al_final (ejecutarOperaciones motor (\<lambda>n. 3 / 4) mundo0)) = 6300"
    by (simp add: evaluar)
  from resultados_independent_of_latency
         [of motor "\<lambda>n. 0" mundo0 "\<lambda>n. 3 / 4" mundo0 0] r0 r1
  show ?thesis by simp
qed

section \<open>Transactions: the totals\<close>

text \<open>
  C10: a result classified \<open>"valida"\<close> for a record that came through
  \<open>validarTransaccionConCallback\<close> as validated carries an amount \<open>> 0\<close>, whatever the
  record. In \<open>ejecutarAnalisis\<close>, which runs over its fixed array, the two totals are
  finite numbers at every iteration and neither goes down from one iteration to the
  next; at the end of the run each total is the sum of the amounts, all \<open>> 0\<close>, of the
  valid results of its kind. The two sums of that run are \<open>0 + 500\<close> and \<open>0 + 300\<close>,
  numbers the rounding leaves as they are.
\<close>

theorem validas_carry_positive_amounts:
  "(validarTransaccionConCallback E t (\<lambda>err res. resolve res) None = Some v
      \<and> get_prop v ''clasificacion'' \<noteq> JStr ''invalida''
      \<and> get_prop (fst (procesarTransaccionConPromesa E azar v w)) ''clasificacion''
          = JStr ''valida''
      \<longrightarrow> (\<exists>m. 0 < m
             \<and> get_prop (fst (procesarTransaccionConPromesa E azar v w)) ''monto''
                 = JNum (Fin m)))
   \<and> (round64 E 500 = Fin 500 \<and> round64 E 300 = Fin 300
        \<and> k < length (arrTransacciones ahora)
      \<longrightarrow> (\<exists>st st'. bucle_transacciones E azar (take k (arrTransacciones ahora))
                        (inicio_analisis w0) = Some st
             \<and> paso_transaccion E azar (arrTransacciones ahora ! k) st = Some st'
             \<and> (\<exists>i e i' e'. totalIngresos st = JNum (Fin i) \<and> totalEgresos st = JNum (Fin e)
                   \<and> totalIngresos st' = JNum (Fin i') \<and> totalEgresos st' = JNum (Fin e')
                   \<and> i \<le> i' \<and> e \<le> e')))
   \<and> (round64 E 500 = Fin 500 \<and> round64 E 300 = Fin 300
      \<longrightarrow> (\<exists>a. ejecutarAnalisis E azar ahora w0 = Some a
             \<and> totalIngresos a = JNum (Fin (suma_montos ''ingreso'' (validas a)))
             \<and> totalEgresos a = JNum (Fin (suma_montos ''egreso'' (validas a)))
             \<and> list_all (\<lambda>r. 0 < monto_real r
                                \<and> get_prop r ''monto'' = JNum (Fin (monto_real r)))
                  (validas a)))"
proof (intro conjI impI)
  assume h: "validarTransaccionConCallback E t (\<lambda>err res. resolve res) None = Some v
      \<and> get_prop v ''clasificacion'' \<noteq> JStr ''invalida''
      \<and> get_prop (fst (procesarTransaccionConPromesa E azar v w)) ''clasificacion''
          = JStr ''valida''"
  then have "\<exists>m. 0 < m
           \<and> get_prop (fst (procesarTransaccionConPromesa E azar v w)) ''monto'' = JNum (Fin m)
           \<and> (get_prop (fst (procesarTransaccionConPromesa E azar v w)) ''tipo'' = JStr ''ingreso''
              \<or> get_prop (fst (procesarTransaccionConPromesa E azar v w)) ''tipo''
                  = JStr ''egreso'')"
    using valida_monto_positivo [of E t v azar w] by blast
  then show "\<exists>m. 0 < m
             \<and> get_prop (fst (procesarTransaccionConPromesa E azar v w)) ''monto''
                 = JNum (Fin m)"
    by blast
next
  assume h: "round64 E 500 = Fin 500 \<and> round64 E 300 = Fin 300
        \<and> k < length (arrTransacciones ahora)"
  then have x: "round64 E 500 = Fin 500" "round64 E 300 = Fin 300" by simp_all
  from h have "k < 7" by (simp add: arrTransacciones_def)
  then consider "k = 0" | "k = 1" | "k = 2" | "k = 3" | "k = 4" | "k = 5" | "k = 6"
    by linarith
  then show "\<exists>st st'. bucle_transacciones E azar (take k (arrTransacciones ahora))
                        (inicio_analisis w0) = Some st
             \<and> paso_transaccion E azar (arrTransacciones ahora ! k) st = Some st'
             \<and> (\<exists>i e i' e'. totalIngresos st = JNum (Fin i) \<and> totalEgresos st = JNum (Fin e)
                   \<and> totalIngresos st' = JNum (Fin i') \<and> totalEgresos st' = JNum (Fin e')
                   \<and> i \<le> i' \<and> e \<le> e')"
  proof cases
    case 1
    then show ?thesis by (simp add: evaluar x)
  next
    case 2
    then show ?thesis by (simp add: evaluar x)
  next
    case 3
    then show ?thesis by (simp add: evaluar x)
  next
    case 4
    then show ?thesis by (simp add: evaluar x)
  next
    case 5
    then show ?thesis by (simp add: evaluar x)
  next
    case 6
    then show ?thesis by (simp add: evaluar x)
  next
    case 7
    then show ?thesis by (simp add: evaluar x)
  qed
next
  assume h: "round64 E 500 = Fin 500 \<and> round64 E 300 = Fin 300"
  then have x: "round64 E 500 = Fin 500" "round64 E 300 = Fin 300" by simp_all
  show "\<exists>a. ejecutarAnalisis E azar ahora w0 = Some a
             \<and> totalIngresos a = JNum (Fin (suma_montos ''ingreso'' (validas a)))
             \<and> totalEgresos a = JNum (Fin (suma_montos ''egreso'' (validas a)))
             \<and> list_all (\<lambda>r. 0 < monto_real r
                                \<and> get_prop r ''monto'' = JNum (Fin (monto_real r)))
                  (validas a)"
    by (simp add: evaluar x suma_montos_def monto_real_def)
qed

theorem validas_carry_positive_amounts_witness:
  "get_prop (fst (procesarTransaccionConPromesa motor (\<lambda>n. 1 / 2)
                    (mk_transaccion 1 ''Sebas'' 500 ''ingreso'' True (JStr ''2025-12-01''))
                    mundo0)) ''monto'' = N 500
   \<and> (\<exists>st'. paso_transaccion motor (\<lambda>n. 1 / 2) (arrTransacciones 0 ! 0)
                (inicio_analisis mundo0) = Some st'
             \<and> totalIngresos st' = N 500 \<and> totalEgresos st' = N 0)
   \<and> (\<exists>a. ejecutarAnalisis motor (\<lambda>n. 1 / 2) 0 mundo0 = Some a
          \<and> totalIngresos a = N 500 \<and> suma_montos ''ingreso'' (validas a) = 500
          \<and> totalEgresos a = N 300 \<and> suma_montos ''egreso'' (validas a) = 300)"
proof -
  let ?t = "mk_transaccion 1 ''Sebas'' 500 ''ingreso'' True (JStr ''2025-12-01'')"
  have h1: "validarTransaccionConCallback motor ?t (\<lambda>err res. resolve res) None = Some ?t
      \<and> get_prop ?t ''clasificacion'' \<noteq> JStr ''invalida''
      \<and> get_prop (fst (procesarTransaccionConPromesa motor (\<lambda>n. 1 / 2) ?t mundo0))
           ''clasificacion'' = JStr ''valida''"
    by (simp add: evaluar)
  have h2: "round64 motor 500 = Fin 500 \<and> round64 motor 300 = Fin 300
            \<and> 0 < length (arrTransacciones 0)"
    by (simp add: motor_def arrTransacciones_def)
  have c1: "get_prop (fst (procesarTransaccionConPromesa motor (\<lambda>n. 1 / 2) ?t mundo0)) ''monto''
              = N 500"
    by (simp add: evaluar)
  have c2: "\<exists>st'. paso_transaccion motor (\<lambda>n. 1 / 2) (arrTransacciones 0 ! 0)
                (inicio_analisis mundo0) = Some st'
             \<and> totalIngresos st' = N 500 \<and> totalEgresos st' = N 0"
    by (simp add: evaluar)
  have c3: "\<exists>a. ejecutarAnalisis motor (\<lambda>n. 1 / 2) 0 mundo0 = Some a
          \<and> totalIngresos a = N 500 \<and> totalEgresos a = N 300"
    by (simp add: evaluar)
  note T = validas_carry_positive_amounts [of motor ?t ?t "\<lambda>n. 1 / 2" mundo0 0 0 mundo0]
  from T h1 have p1: "\<exists>m. 0 < m
      \<and> get_prop (fst (procesarTransaccionConPromesa motor (\<lambda>n. 1 / 2) ?t mundo0)) ''monto''
          = JNum (Fin m)"
    by blast
  from T h2 have p2: "\<exists>st st'. bucle_transacciones motor (\<lambda>n. 1 / 2)
                        (take 0 (arrTransacciones 0)) (inicio_analisis mundo0) = Some st
             \<and> paso_transaccion motor (\<lambda>n. 1 / 2) (arrTransacciones 0 ! 0) st = Some st'
             \<and> (\<exists>i e i' e'. totalIngresos st = JNum (Fin i) \<and> totalEgresos st = JNum (Fin e)
                   \<and> totalIngresos st' = JNum (Fin i') \<and> totalEgresos st' = JNum (Fin e')
                   \<and> i \<le> i' \<and> e \<le> e')"
    by blast
  from T h2 have p3: "\<exists>a. ejecutarAnalisis motor (\<lambda>n. 1 / 2) 0 mundo0 = Some a
             \<and> totalIngresos a = JNum (Fin (suma_montos ''ingreso'' (validas a)))
             \<and> totalEgresos a = JNum (Fin (suma_montos ''egreso'' (validas a)))
             \<and> list_all (\<lambda>r. 0 < monto_real r
                                \<and> get_prop r ''monto'' = JNum (Fin (monto_real r)))
                  (validas a)"
    by blast
  from p3 c3 have "\<exists>a. ejecutarAnalisis motor (\<lambda>n. 1 / 2) 0 mundo0 = Some a
          \<and> totalIngresos a = N 500 \<and> suma_montos ''ingreso'' (validas a) = 500
          \<and> totalEgresos a = N 300 \<and> suma_montos ''egreso'' (validas a) = 300"
    by auto
  with p1 p2 c1 c2 show ?thesis by simp
qed

end
